theory Spec2Isabelle
  imports Complex_Main "HOL-Library.Word"
begin

section \<open>Bitstream of a routing multiplexer\<close>

text \<open>
  The functions \<open>find_mux_default_path_id\<close>, \<open>build_cmos_mux_bitstream\<close> and
  \<open>build_mux_bitstream\<close> of openfpga/src/base/openfpga_link_arch.cpp (lines 220 to 401 of
  that file).  Line numbers below are those of that file.
\<close>

subsection \<open>Machine types, identifiers and failures\<close>

text \<open>
  \<open>size_t\<close> is an unsigned 64-bit integer and \<open>int\<close> a signed 32-bit integer.  The
  strong identifiers of the code base (\<open>CircuitModelId\<close>, \<open>MuxId\<close>, \<open>MuxMemId\<close>, ...)
  wrap an index and are natural numbers here.
\<close>

type_synonym size_t = "64 word"
type_synonym c_int = "32 word"

type_synonym CircuitModelId = nat
type_synonym CircuitPortId = nat
type_synonym MuxId = nat
type_synonym MuxNodeId = nat
type_synonym MuxInputId = nat
type_synonym MuxOutputId = nat
type_synonym MuxMemId = nat
type_synonym MuxEdgeId = nat
type_synonym ModuleId = nat

text \<open>
  Every way in which the code stops without a result is a value:
  \<^item> \<open>AssertionFailed n\<close>: the condition of the \<open>VTR_ASSERT\<close> at line \<open>n\<close> of the
    source file of the function is false;
  \<^item> \<open>FatalExit\<close>: an error message followed by \<open>exit(1)\<close>;
  \<^item> \<open>LibraryLookupMiss\<close>: a (model, size) pair or a graph identifier that the
    multiplexer library does not hold.
\<close>

datatype error = AssertionFailed nat | FatalExit | LibraryLookupMiss

text \<open>
  The design technology tag of a circuit model.  The enumeration is declared in a header
  that is not among the sources; the code switches on the two named tags and treats every
  other value in its \<open>default\<close> branch.
\<close>

datatype e_circuit_model_design_tech =
    CIRCUIT_MODEL_DESIGN_CMOS
  | CIRCUIT_MODEL_DESIGN_RRAM
  | CIRCUIT_MODEL_DESIGN_OTHER nat

text \<open>
  The type of a circuit model and of a logic gate, as far as the Verilog writer
  distinguishes them (\<open>SPICE_MODEL_GATE\<close>, \<open>SPICE_MODEL_GATE_MUX2\<close>, anything else).
\<close>

datatype e_spice_model_type = SPICE_MODEL_GATE | SPICE_MODEL_MUX | SPICE_MODEL_OTHER nat

datatype e_spice_model_gate_type = SPICE_MODEL_GATE_MUX2 | SPICE_MODEL_GATE_OTHER nat

text \<open>
  \<open>CircuitLibrary\<close>: the class is not among the sources; the record has one field for
  each accessor that the code calls.  \<open>model_ports_by_type\<close> and
  \<open>model_global_ports_by_type\<close> are split by the port type they are called with.
\<close>

record CircuitLibrary =
  mux_add_const_input :: "CircuitModelId \<Rightarrow> bool"
  mux_use_local_encoder :: "CircuitModelId \<Rightarrow> bool"
  design_tech_type :: "CircuitModelId \<Rightarrow> e_circuit_model_design_tech"
  model_name :: "CircuitModelId \<Rightarrow> string"
  pass_gate_logic_model :: "CircuitModelId \<Rightarrow> CircuitModelId"
  model_type :: "CircuitModelId \<Rightarrow> e_spice_model_type"
  gate_type :: "CircuitModelId \<Rightarrow> e_spice_model_gate_type"
  model_input_ports :: "CircuitModelId \<Rightarrow> CircuitPortId list"
  model_output_ports :: "CircuitModelId \<Rightarrow> CircuitPortId list"
  model_global_input_ports :: "CircuitModelId \<Rightarrow> CircuitPortId list"
  port_lib_name :: "CircuitPortId \<Rightarrow> string"
  port_size :: "CircuitPortId \<Rightarrow> nat"
  dump_explicit_port_map :: "CircuitModelId \<Rightarrow> bool"

text \<open>
  \<open>MuxGraph\<close>: the class is not among the sources either; the record has one field for
  each accessor that the code calls.  \<open>decode_memory_bits\<close> is the graph's own decoder:
  it returns one boolean per memory, indexed by memory id.
\<close>

record MuxGraph =
  inputs :: "MuxNodeId list"
  outputs :: "MuxNodeId list"
  input_id :: "MuxNodeId \<Rightarrow> MuxInputId"
  output_id :: "MuxNodeId \<Rightarrow> MuxOutputId"
  levels :: "nat list"
  memories_at_level :: "nat \<Rightarrow> MuxMemId list"
  decode_memory_bits :: "MuxInputId \<Rightarrow> MuxOutputId \<Rightarrow> bool list"
  num_inputs :: nat
  num_outputs :: nat
  num_memory_bits :: nat
  num_levels :: nat
  find_edges :: "MuxNodeId \<Rightarrow> MuxNodeId \<Rightarrow> MuxEdgeId list"
  find_edge_mem :: "MuxEdgeId \<Rightarrow> MuxMemId"
  is_edge_use_inv_mem :: "MuxEdgeId \<Rightarrow> bool"

text \<open>
  Modelled from the spec: \<open>MuxLibrary\<close>, whose class is not among the sources, is a
  mapping from (circuit model, datapath size) to a graph identifier and a mapping from
  graph identifier to graph (the two overloads of \<open>mux_graph\<close>).
\<close>

record MuxLibrary =
  mux_graph_by_model :: "CircuitModelId \<times> size_t \<rightharpoonup> MuxId"
  mux_graph_by_id :: "MuxId \<rightharpoonup> MuxGraph"

subsection \<open>Constants and helpers declared outside the sources\<close>

text \<open>
  Modelled from the spec: \<open>DEFAULT_MUX_PATH_ID\<close> (header mux_bitstream_constants.h is not
  among the sources) is the fixed first-input index 0.
\<close>

definition DEFAULT_MUX_PATH_ID :: size_t where
  "DEFAULT_MUX_PATH_ID = 0"

text \<open>
  Modelled from the spec: \<open>DEFAULT_PATH_ID\<close> (same missing header) is the sentinel path
  id that asks for the default path.  The spec only fixes that it is not one of the
  non-negative path ids; the sentinel is the integer -1 here.  The theorems below hold for
  any value of it; only the runs on concrete inputs use the value.
\<close>

definition DEFAULT_PATH_ID :: c_int where
  "DEFAULT_PATH_ID = - 1"

text \<open>
  Modelled from the spec: \<open>find_mux_local_decoder_addr_size\<close> (decoder_library_utils is
  not among the sources) is the width of a local decoder address, \<open>ceil(log2(data_size))\<close>,
  computed here by halving.  The spec gives no width for an empty level; the recursion
  gives 0 there.
\<close>

fun find_mux_local_decoder_addr_size :: "nat \<Rightarrow> nat" where
  "find_mux_local_decoder_addr_size data_size =
     (if data_size \<le> 1 then 0
      else Suc (find_mux_local_decoder_addr_size ((data_size + 1) div 2)))"

declare find_mux_local_decoder_addr_size.simps [simp del]

text \<open>
  Modelled from the spec: \<open>itobin_vec\<close> (openfpga_decode is not among the sources) is the
  fixed-width binary representation of an integer, one 0/1 digit per position,
  most-significant bit first.
\<close>

fun itobin_vec :: "nat \<Rightarrow> nat \<Rightarrow> nat list" where
  "itobin_vec in_int 0 = []"
| "itobin_vec in_int (Suc bin_len) = itobin_vec (in_int div 2) bin_len @ [in_int mod 2]"

text \<open>
  Reading a bit sequence as an unsigned binary integer, most-significant bit first: the
  inverse direction of \<open>itobin_vec\<close>, used to state the round trip.
\<close>

definition bin_to_nat :: "bool list \<Rightarrow> nat" where
  "bin_to_nat bits = foldl (\<lambda>acc b. 2 * acc + (if b then 1 else 0)) 0 bits"

subsection \<open>find_mux_default_path_id\<close>

definition find_mux_default_path_id :: "CircuitLibrary \<Rightarrow> CircuitModelId \<Rightarrow> size_t \<Rightarrow> size_t" where
  "find_mux_default_path_id circuit_lib mux_model mux_size =
     (if mux_add_const_input circuit_lib mux_model = True
      then mux_size - 1
      else DEFAULT_MUX_PATH_ID)"

subsection \<open>build_cmos_mux_bitstream\<close>

text \<open>
  The two library lookups \<open>mux_lib.mux_graph(mux_model, mux_size)\<close> and
  \<open>mux_lib.mux_graph(mux_graph_id)\<close> of lines 289 and 290.  Modelled from the spec: a
  lookup that does not resolve is fatal.
\<close>

definition mux_lib_mux_graph :: "MuxLibrary \<Rightarrow> CircuitModelId \<Rightarrow> size_t \<Rightarrow> error + MuxGraph" where
  "mux_lib_mux_graph mux_lib mux_model mux_size =
     (case mux_graph_by_model mux_lib (mux_model, mux_size) of
        None \<Rightarrow> Inl LibraryLookupMiss
      | Some gid \<Rightarrow>
          (case mux_graph_by_id mux_lib gid of
             None \<Rightarrow> Inl LibraryLookupMiss
           | Some g \<Rightarrow> Inr g))"

text \<open>
  The path id related to the implementation (lines 292 to 300):
  \<open>size_t datapath_id = path_id\<close> converts the signed 32-bit path id to \<open>size_t\<close> by
  sign extension; the default path id is replaced, any other one is asserted to be below
  the datapath size.
\<close>

definition cmos_mux_datapath_id ::
  "CircuitLibrary \<Rightarrow> CircuitModelId \<Rightarrow> size_t \<Rightarrow> size_t \<Rightarrow> c_int \<Rightarrow> error + size_t" where
  "cmos_mux_datapath_id circuit_lib mux_model implemented_mux_size mux_size path_id =
     (let datapath_id = (scast path_id :: size_t) in
      if DEFAULT_PATH_ID = path_id
      then Inr (find_mux_default_path_id circuit_lib mux_model implemented_mux_size)
      else if datapath_id < mux_size then Inr datapath_id
      else Inl (AssertionFailed 299))"

text \<open>
  One round of the loop over the levels (lines 327 to 367): the bits that one level, with
  memories \<open>mems\<close>, appends to the bitstream.  \<open>raw_bitstream[...]\<close> is an unchecked read
  and never stops the program: it is \<open>raw_bitstream ! mem\<close>, whose value for a memory id
  past the end is a bit that nothing is known about (the read is undefined in C++).
\<close>

definition encode_mux_level :: "bool list \<Rightarrow> MuxMemId list \<Rightarrow> error + bool list" where
  "encode_mux_level raw_bitstream mems =
     (if 1 = length mems
      then Inr [raw_bitstream ! (mems ! 0)]
      else
        let encoder_data =
              filter (\<lambda>mem_index. raw_bitstream ! (mems ! mem_index) = True) [0..<length mems]
        in
        if \<not> (0 = length encoder_data \<or> 1 = length encoder_data)
        then Inl (AssertionFailed 351)
        else if 0 = length encoder_data
        then Inr (map (\<lambda>bit. 1 = bit)
                    (itobin_vec 0 (find_mux_local_decoder_addr_size (length mems))))
        else if \<not> 1 = length encoder_data then Inl (AssertionFailed 359)
        else Inr (map (\<lambda>bit. 1 = bit)
                    (itobin_vec (encoder_data ! 0)
                       (find_mux_local_decoder_addr_size (length mems)))))"

text \<open>The loop over \<open>mux_graph.levels()\<close>, appending to \<open>mux_bitstream\<close>.\<close>

fun encode_mux_levels :: "MuxGraph \<Rightarrow> bool list \<Rightarrow> nat list \<Rightarrow> bool list \<Rightarrow> error + bool list" where
  "encode_mux_levels mux_graph raw_bitstream [] mux_bitstream = Inr mux_bitstream"
| "encode_mux_levels mux_graph raw_bitstream (level # rest) mux_bitstream =
     (case encode_mux_level raw_bitstream (memories_at_level mux_graph level) of
        Inl e \<Rightarrow> Inl e
      | Inr bits \<Rightarrow> encode_mux_levels mux_graph raw_bitstream rest (mux_bitstream @ bits))"

text \<open>
  The function from the two assertions on the graph to the end (lines 301 to 370): decode
  the memory bits of the path and, when the model uses a local encoder, encode them level
  by level.
\<close>

definition cmos_mux_bitstream_of_datapath ::
  "CircuitLibrary \<Rightarrow> CircuitModelId \<Rightarrow> MuxGraph \<Rightarrow> size_t \<Rightarrow> error + bool list" where
  "cmos_mux_bitstream_of_datapath circuit_lib mux_model mux_graph datapath_id =
     (if \<not> unat datapath_id < length (inputs mux_graph) then Inl (AssertionFailed 302)
      else if \<not> 1 = length (outputs mux_graph) then Inl (AssertionFailed 304)
      else
        let raw_bitstream =
              decode_memory_bits mux_graph (unat datapath_id)
                (output_id mux_graph (outputs mux_graph ! 0));
            mux_bitstream = raw_bitstream
        in
        if mux_use_local_encoder circuit_lib mux_model = False then Inr mux_bitstream
        else encode_mux_levels mux_graph raw_bitstream (levels mux_graph) [])"

text \<open>
  The whole function.  \<open>find_mux_implementation_num_inputs\<close> (mux_utils is not among the
  sources, and the spec gives no formula for it) is a parameter, taken to return a size.
\<close>

definition build_cmos_mux_bitstream ::
  "(CircuitLibrary \<Rightarrow> CircuitModelId \<Rightarrow> size_t \<Rightarrow> size_t) \<Rightarrow>
   CircuitLibrary \<Rightarrow> CircuitModelId \<Rightarrow> MuxLibrary \<Rightarrow> size_t \<Rightarrow> c_int \<Rightarrow> error + bool list" where
  "build_cmos_mux_bitstream find_mux_implementation_num_inputs
       circuit_lib mux_model mux_lib mux_size path_id =
     (let implemented_mux_size =
            find_mux_implementation_num_inputs circuit_lib mux_model mux_size
      in
      case mux_lib_mux_graph mux_lib mux_model mux_size of
        Inl e \<Rightarrow> Inl e
      | Inr mux_graph \<Rightarrow>
          (case cmos_mux_datapath_id circuit_lib mux_model implemented_mux_size mux_size path_id of
             Inl e \<Rightarrow> Inl e
           | Inr datapath_id \<Rightarrow>
               cmos_mux_bitstream_of_datapath circuit_lib mux_model mux_graph datapath_id))"

subsection \<open>build_mux_bitstream\<close>

definition build_mux_bitstream ::
  "(CircuitLibrary \<Rightarrow> CircuitModelId \<Rightarrow> size_t \<Rightarrow> size_t) \<Rightarrow>
   CircuitLibrary \<Rightarrow> CircuitModelId \<Rightarrow> MuxLibrary \<Rightarrow> size_t \<Rightarrow> c_int \<Rightarrow> error + bool list" where
  "build_mux_bitstream find_mux_implementation_num_inputs
       circuit_lib mux_model mux_lib mux_size path_id =
     (case design_tech_type circuit_lib mux_model of
        CIRCUIT_MODEL_DESIGN_CMOS \<Rightarrow>
          build_cmos_mux_bitstream find_mux_implementation_num_inputs
            circuit_lib mux_model mux_lib mux_size path_id
      | CIRCUIT_MODEL_DESIGN_RRAM \<Rightarrow> Inr []
      | CIRCUIT_MODEL_DESIGN_OTHER t \<Rightarrow> Inl FatalExit)"

section \<open>Structural Verilog of a multiplexer branch\<close>

text \<open>
  The function \<open>generate_verilog_cmos_mux_branch_module_structural\<close> of the source file
  unnamed/part_002 (lines 33 to 152).  Line numbers below are those of that file.
\<close>

subsection \<open>Ports, the module manager and the output file\<close>

text \<open>
  \<open>BasicPort\<close> (openfpga_port is not among the sources): a port is kept as the arguments
  of the constructor that built it, \<open>BasicPort(name, lsb, msb)\<close> or
  \<open>BasicPort(name, width)\<close>.
\<close>

datatype BasicPort = BasicPort_lsb_msb string nat nat | BasicPort_width string nat

fun get_name :: "BasicPort \<Rightarrow> string" where
  "get_name (BasicPort_lsb_msb name lsb msb) = name"
| "get_name (BasicPort_width name width) = name"

datatype e_module_port_type = MODULE_GLOBAL_PORT | MODULE_INPUT_PORT | MODULE_OUTPUT_PORT

text \<open>
  \<open>ModuleManager\<close> (not among the sources): its state is a type parameter and the four
  member functions that the writer calls are the fields of a record.  \<open>ModuleId::INVALID()\<close>
  is \<open>None\<close>.
\<close>

record 'mm ModuleManager =
  add_module :: "'mm \<Rightarrow> string \<Rightarrow> 'mm \<times> ModuleId option"
  add_port :: "'mm \<Rightarrow> ModuleId \<Rightarrow> BasicPort \<Rightarrow> e_module_port_type \<Rightarrow> 'mm"
  find_module :: "'mm \<Rightarrow> string \<Rightarrow> ModuleId option"
  add_child_module :: "'mm \<Rightarrow> ModuleId \<Rightarrow> ModuleId \<Rightarrow> 'mm"

text \<open>
  The output file is the sequence of calls of the printing functions of
  verilog_writer_utils (declared in the header, defined outside the sources), each with
  its arguments; \<open>port2port_name_map\<close>, a \<open>std::map\<close>, is a map from port name to port.
  \<open>check_file_handler\<close> stops the program when the stream is not good.
\<close>

datatype 'mm verilog_print =
    Print_verilog_module_declaration 'mm ModuleId
  | Print_verilog_comment string
  | Print_verilog_module_instance 'mm ModuleId ModuleId "string \<rightharpoonup> BasicPort" bool
  | Print_verilog_module_end string

record 'mm fstream =
  fp_good :: bool
  fp_out :: "'mm verilog_print list"

definition fp_print :: "'mm fstream \<Rightarrow> 'mm verilog_print \<Rightarrow> 'mm fstream" where
  "fp_print fp call = fp\<lparr>fp_out := fp_out fp @ [call]\<rparr>"

text \<open>A range-based \<open>for\<close> loop whose body changes a state and may stop the program.\<close>

fun for_each :: "('a \<Rightarrow> 's \<Rightarrow> error + 's) \<Rightarrow> 'a list \<Rightarrow> 's \<Rightarrow> error + 's" where
  "for_each body [] s = Inr s"
| "for_each body (x # xs) s =
     (case body x s of Inl e \<Rightarrow> Inl e | Inr s' \<Rightarrow> for_each body xs s')"

subsection \<open>generate_verilog_cmos_mux_branch_module_structural\<close>

text \<open>The body of the loop over the outputs, for one input and one output.\<close>

definition mux_branch_output_step ::
  "'mm ModuleManager \<Rightarrow> CircuitLibrary \<Rightarrow> MuxGraph \<Rightarrow> CircuitModelId \<Rightarrow>
   CircuitPortId list \<Rightarrow> CircuitPortId list \<Rightarrow> BasicPort \<Rightarrow> BasicPort \<Rightarrow> BasicPort \<Rightarrow>
   ModuleId \<Rightarrow> ModuleId \<Rightarrow> BasicPort \<Rightarrow> MuxNodeId \<Rightarrow> MuxNodeId \<Rightarrow>
   'mm \<times> 'mm fstream \<Rightarrow> error + 'mm \<times> 'mm fstream" where
  "mux_branch_output_step mgr circuit_lib mux_graph tgate_model
       tgate_input_ports tgate_output_ports output_port mem_port mem_inv_port
       module_id tgate_module_id cur_input_port mux_input mux_output state =
     (case state of (module_manager, fp) \<Rightarrow>
      let cur_output_port =
            BasicPort_lsb_msb (get_name output_port)
              (output_id mux_graph mux_output) (output_id mux_graph mux_output);
          edges = find_edges mux_graph mux_input mux_output
      in
      if \<not> (1 = length edges \<or> 0 = length edges) then Inl (AssertionFailed 115)
      else if 0 = length edges then Inr (module_manager, fp)
      else
        let port2port_name_map0 =
              (Map.empty(port_lib_name circuit_lib (tgate_input_ports ! 0) \<mapsto> cur_input_port))
                (port_lib_name circuit_lib (tgate_output_ports ! 0) \<mapsto> cur_output_port);
            mux_mem = find_edge_mem mux_graph (edges ! 0);
            cur_mem_port = BasicPort_lsb_msb (get_name mem_port) mux_mem mux_mem;
            cur_mem_inv_port = BasicPort_lsb_msb (get_name mem_inv_port) mux_mem mux_mem;
            port2port_name_map =
              (if False = is_edge_use_inv_mem mux_graph (edges ! 0)
               then (port2port_name_map0
                      (port_lib_name circuit_lib (tgate_input_ports ! 1) \<mapsto> cur_mem_port))
                      (port_lib_name circuit_lib (tgate_input_ports ! 2) \<mapsto> cur_mem_inv_port)
               else (port2port_name_map0
                      (port_lib_name circuit_lib (tgate_input_ports ! 1) \<mapsto> cur_mem_inv_port))
                      (port_lib_name circuit_lib (tgate_input_ports ! 2) \<mapsto> cur_mem_port));
            fp' = fp_print fp
                    (Print_verilog_module_instance module_manager module_id tgate_module_id
                       port2port_name_map (dump_explicit_port_map circuit_lib tgate_model))
        in Inr (add_child_module mgr module_manager module_id tgate_module_id, fp'))"

text \<open>The body of the loop over the inputs: the loop over the outputs for one input.\<close>

definition mux_branch_input_step ::
  "'mm ModuleManager \<Rightarrow> CircuitLibrary \<Rightarrow> MuxGraph \<Rightarrow> CircuitModelId \<Rightarrow>
   CircuitPortId list \<Rightarrow> CircuitPortId list \<Rightarrow> BasicPort \<Rightarrow> BasicPort \<Rightarrow> BasicPort \<Rightarrow>
   BasicPort \<Rightarrow> ModuleId \<Rightarrow> ModuleId \<Rightarrow> MuxNodeId \<Rightarrow>
   'mm \<times> 'mm fstream \<Rightarrow> error + 'mm \<times> 'mm fstream" where
  "mux_branch_input_step mgr circuit_lib mux_graph tgate_model
       tgate_input_ports tgate_output_ports input_port output_port mem_port mem_inv_port
       module_id tgate_module_id mux_input state =
     (let cur_input_port =
            BasicPort_lsb_msb (get_name input_port)
              (input_id mux_graph mux_input) (input_id mux_graph mux_input)
      in for_each
           (mux_branch_output_step mgr circuit_lib mux_graph tgate_model
              tgate_input_ports tgate_output_ports output_port mem_port mem_inv_port
              module_id tgate_module_id cur_input_port mux_input)
           (outputs mux_graph) state)"

text \<open>
  The function.  It takes the module manager and the file by reference; here it takes
  their states and returns the new ones.
\<close>

definition generate_verilog_cmos_mux_branch_module_structural ::
  "'mm ModuleManager \<Rightarrow> CircuitLibrary \<Rightarrow> CircuitModelId \<Rightarrow> string \<Rightarrow> MuxGraph \<Rightarrow>
   'mm \<times> 'mm fstream \<Rightarrow> error + 'mm \<times> 'mm fstream" where
  "generate_verilog_cmos_mux_branch_module_structural mgr circuit_lib circuit_model
       module_name mux_graph state =
     (case state of (module_manager, fp) \<Rightarrow>
      let tgate_model = pass_gate_logic_model circuit_lib circuit_model in
      if SPICE_MODEL_GATE = model_type circuit_lib tgate_model
      then (if SPICE_MODEL_GATE_MUX2 = gate_type circuit_lib tgate_model
            then Inr (module_manager, fp)
            else Inl (AssertionFailed 45))
      else
        let tgate_input_ports = model_input_ports circuit_lib tgate_model;
            tgate_output_ports = model_output_ports circuit_lib tgate_model;
            tgate_global_ports = model_global_input_ports circuit_lib tgate_model
        in
        if \<not> 3 = length tgate_input_ports then Inl (AssertionFailed 53)
        else if \<not> 1 = length tgate_output_ports then Inl (AssertionFailed 54)
        else if \<not> fp_good fp then Inl FatalExit
        else if \<not> 1 = num_outputs mux_graph then Inl (AssertionFailed 69)
        else if \<not> 1 = num_levels mux_graph then Inl (AssertionFailed 71)
        else
          (case add_module mgr module_manager module_name of
             (module_manager1, None) \<Rightarrow> Inl (AssertionFailed 75)
           | (module_manager1, Some module_id) \<Rightarrow>
               let module_manager2 =
                     fold (\<lambda>port mm.
                             add_port mgr mm module_id
                               (BasicPort_width (port_lib_name circuit_lib port)
                                  (port_size circuit_lib port))
                               MODULE_GLOBAL_PORT)
                       tgate_global_ports module_manager1;
                   input_port = BasicPort_width ''in'' (num_inputs mux_graph);
                   module_manager3 =
                     add_port mgr module_manager2 module_id input_port MODULE_INPUT_PORT;
                   output_port = BasicPort_width ''out'' (num_outputs mux_graph);
                   module_manager4 =
                     add_port mgr module_manager3 module_id output_port MODULE_OUTPUT_PORT;
                   mem_port = BasicPort_width ''mem'' (num_memory_bits mux_graph);
                   module_manager5 =
                     add_port mgr module_manager4 module_id mem_port MODULE_INPUT_PORT;
                   mem_inv_port = BasicPort_width ''mem_inv'' (num_memory_bits mux_graph);
                   module_manager6 =
                     add_port mgr module_manager5 module_id mem_inv_port MODULE_INPUT_PORT
               in
               (case find_module mgr module_manager6 (model_name circuit_lib tgate_model) of
                  None \<Rightarrow> Inl (AssertionFailed 97)
                | Some tgate_module_id \<Rightarrow>
                    let fp1 = fp_print fp
                                (Print_verilog_module_declaration module_manager6 module_id);
                        fp2 = fp_print fp1
                                (Print_verilog_comment ''---- Structure-level description -----'')
                    in
                    (case for_each
                            (mux_branch_input_step mgr circuit_lib mux_graph tgate_model
                               tgate_input_ports tgate_output_ports
                               input_port output_port mem_port mem_inv_port
                               module_id tgate_module_id)
                            (inputs mux_graph) (module_manager6, fp2) of
                       Inl e \<Rightarrow> Inl e
                     | Inr (module_manager7, fp3) \<Rightarrow>
                         Inr (module_manager7,
                              fp_print fp3 (Print_verilog_module_end module_name))))))"

subsection \<open>The edges of a multiplexer graph\<close>

text \<open>
  The predicate that the assertion of line 115 tests on every pair the writer visits:
  between any input and any output of the graph there is at most one edge.
\<close>

definition at_most_one_edge :: "MuxGraph \<Rightarrow> bool" where
  "at_most_one_edge mux_graph =
     list_all (\<lambda>mux_input.
        list_all (\<lambda>mux_output. length (find_edges mux_graph mux_input mux_output) \<le> 1)
          (outputs mux_graph))
       (inputs mux_graph)"

text \<open>
  Modelled from the spec: the edges that a \<open>MuxGraph\<close> holds (the class and the code that
  builds its graphs are not among the sources).  A graph has a set of edges, each connecting
  one input to one output and annotated with the controlling memory id and an inversion
  flag, with the invariant that between any (input, output) pair there is at most one edge.
  The identifier of an edge is its position in the table.
\<close>

record MuxEdge =
  edge_src :: MuxNodeId
  edge_sink :: MuxNodeId
  edge_mem :: MuxMemId
  edge_inv_mem :: bool

typedef MuxEdges = "{edges :: MuxEdge list. distinct (map (\<lambda>e. (edge_src e, edge_sink e)) edges)}"
  morphisms edge_list MuxEdges
proof
  show "[] \<in> {edges :: MuxEdge list. distinct (map (\<lambda>e. (edge_src e, edge_sink e)) edges)}"
    by simp
qed

text \<open>
  Modelled from the spec: the three edge accessors of \<open>MuxGraph\<close> that the writer calls, as
  they read the edges of the graph.
\<close>

definition edges_find_edges :: "MuxEdges \<Rightarrow> MuxNodeId \<Rightarrow> MuxNodeId \<Rightarrow> MuxEdgeId list" where
  "edges_find_edges edges src sink =
     filter (\<lambda>edge. edge_src (edge_list edges ! edge) = src \<and>
                     edge_sink (edge_list edges ! edge) = sink)
       [0..<length (edge_list edges)]"

definition mux_graph_with_edges :: "MuxGraph \<Rightarrow> MuxEdges \<Rightarrow> MuxGraph" where
  "mux_graph_with_edges mux_graph edges =
     mux_graph
       \<lparr> find_edges := edges_find_edges edges,
         find_edge_mem := (\<lambda>edge. edge_mem (edge_list edges ! edge)),
         is_edge_use_inv_mem := (\<lambda>edge. edge_inv_mem (edge_list edges ! edge)) \<rparr>"


section \<open>A four-input multiplexer, used to run the functions on concrete inputs\<close>

text \<open>
  Circuit models of the example library: 0 is a CMOS multiplexer with neither a constant
  input nor a local encoder, 1 has a constant input, 2 uses a local encoder, 3 is a ReRAM
  multiplexer, 4 has an unknown design technology, 5 is the pass gate of the others and
  6 is built from MUX2 gates.
\<close>

definition example_circuit_lib :: CircuitLibrary where
  "example_circuit_lib =
     \<lparr> mux_add_const_input = (\<lambda>model. model = 1),
       mux_use_local_encoder = (\<lambda>model. model = 2),
       design_tech_type =
         (\<lambda>model. if model = 3 then CIRCUIT_MODEL_DESIGN_RRAM
                  else if model = 4 then CIRCUIT_MODEL_DESIGN_OTHER 0
                  else CIRCUIT_MODEL_DESIGN_CMOS),
       model_name = (\<lambda>model. if model = 5 then ''tgate'' else ''mux''),
       pass_gate_logic_model = (\<lambda>model. if model = 6 then 6 else 5),
       model_type =
         (\<lambda>model. if model = 6 then SPICE_MODEL_GATE
                  else if model = 5 then SPICE_MODEL_OTHER 0
                  else SPICE_MODEL_MUX),
       gate_type = (\<lambda>model. SPICE_MODEL_GATE_MUX2),
       model_input_ports = (\<lambda>model. if model = 5 then [0, 1, 2] else []),
       model_output_ports = (\<lambda>model. if model = 5 then [3] else []),
       model_global_input_ports = (\<lambda>model. []),
       port_lib_name =
         (\<lambda>port. if port = 0 then ''in'' else if port = 1 then ''sel''
                 else if port = 2 then ''selb'' else ''out''),
       port_size = (\<lambda>port. 1),
       dump_explicit_port_map = (\<lambda>model. True) \<rparr>"

text \<open>
  A one-level multiplexer with four inputs (nodes 0 to 3), one output (node 4) and one
  memory per input; the edge of input 3 uses the inverted memory.
\<close>

definition example_mux_graph :: MuxGraph where
  "example_mux_graph =
     \<lparr> inputs = [0, 1, 2, 3],
       outputs = [4],
       input_id = (\<lambda>node. node),
       output_id = (\<lambda>node. 0),
       levels = [0],
       memories_at_level = (\<lambda>level. [0, 1, 2, 3]),
       decode_memory_bits = (\<lambda>input output. map (\<lambda>mem. mem = input) [0, 1, 2, 3]),
       num_inputs = 4,
       num_outputs = 1,
       num_memory_bits = 4,
       num_levels = 1,
       find_edges = (\<lambda>src sink. if src < 4 \<and> sink = 4 then [src] else []),
       find_edge_mem = (\<lambda>edge. edge),
       is_edge_use_inv_mem = (\<lambda>edge. edge = 3) \<rparr>"

definition example_mux_lib :: MuxLibrary where
  "example_mux_lib =
     \<lparr> mux_graph_by_model = (\<lambda>key. if snd key = 4 \<or> key = (1, 3) then Some 0 else None),
       mux_graph_by_id = (\<lambda>gid. if gid = 0 then Some example_mux_graph else None) \<rparr>"

text \<open>
  An instance of \<open>find_mux_implementation_num_inputs\<close>: a constant input is one more
  input of the implemented multiplexer.
\<close>

definition example_impl :: "CircuitLibrary \<Rightarrow> CircuitModelId \<Rightarrow> size_t \<Rightarrow> size_t" where
  "example_impl circuit_lib mux_model mux_size =
     (if mux_add_const_input circuit_lib mux_model then mux_size + 1 else mux_size)"

text \<open>A two-level tree multiplexer with one memory at each level.\<close>

definition example_tree_mux_graph :: MuxGraph where
  "example_tree_mux_graph =
     \<lparr> inputs = [0, 1, 2, 3],
       outputs = [6],
       input_id = (\<lambda>node. node),
       output_id = (\<lambda>node. 0),
       levels = [0, 1],
       memories_at_level = (\<lambda>level. [level]),
       decode_memory_bits = (\<lambda>input output. [input mod 2 = 1, input div 2 = 1]),
       num_inputs = 4,
       num_outputs = 1,
       num_memory_bits = 2,
       num_levels = 2,
       find_edges = (\<lambda>src sink. []),
       find_edge_mem = (\<lambda>edge. edge),
       is_edge_use_inv_mem = (\<lambda>edge. False) \<rparr>"

text \<open>
  A library that holds one graph, for every model, at datapath size 4.
\<close>

definition example_mux_lib_of :: "MuxGraph \<Rightarrow> MuxLibrary" where
  "example_mux_lib_of mux_graph =
     \<lparr> mux_graph_by_model = (\<lambda>key. if snd key = 4 then Some 0 else None),
       mux_graph_by_id = (\<lambda>gid. if gid = 0 then Some mux_graph else None) \<rparr>"

text \<open>
  The four-input graph with a decoder that sets the memories 0 and 2 at once.
\<close>

definition example_two_hot_mux_graph :: MuxGraph where
  "example_two_hot_mux_graph =
     example_mux_graph
       \<lparr> decode_memory_bits := (\<lambda>input output. [True, False, True, False]) \<rparr>"

text \<open>
  The four-input graph with a decoder that sets no memory.
\<close>

definition example_unset_mux_graph :: MuxGraph where
  "example_unset_mux_graph =
     example_mux_graph
       \<lparr> decode_memory_bits := (\<lambda>input output. [False, False, False, False]) \<rparr>"

text \<open>
  A module manager whose state is the list of module names; the identifier of a module is
  its position in the list.  Adding a name that is already there gives the invalid
  identifier.
\<close>

definition example_module_manager :: "string list ModuleManager" where
  "example_module_manager =
     \<lparr> add_module =
         (\<lambda>modules name. (modules @ [name],
                           if name \<in> set modules then None else Some (length modules))),
       add_port = (\<lambda>modules module_id port port_type. modules),
       find_module =
         (\<lambda>modules name. if name \<in> set modules
                          then Some (length (takeWhile (\<lambda>other. other \<noteq> name) modules))
                          else None),
       add_child_module = (\<lambda>modules parent child. modules) \<rparr>"

text \<open>
  An open, empty output file.
\<close>

definition example_fstream :: "string list fstream" where
  "example_fstream = \<lparr> fp_good = True, fp_out = [] \<rparr>"

text \<open>
  The four-input graph with \<open>find_edges\<close> changed to return two edges for every pair.
\<close>

definition example_double_edge_graph :: MuxGraph where
  "example_double_edge_graph = example_mux_graph \<lparr> find_edges := (\<lambda>src sink. [0, 1]) \<rparr>"

text \<open>
  The edges of the four-input multiplexer: one edge from each input to the output.
\<close>

definition example_mux_edges :: MuxEdges where
  "example_mux_edges =
     MuxEdges
       [\<lparr> edge_src = 0, edge_sink = 4, edge_mem = 0, edge_inv_mem = False \<rparr>,
        \<lparr> edge_src = 1, edge_sink = 4, edge_mem = 1, edge_inv_mem = False \<rparr>,
        \<lparr> edge_src = 2, edge_sink = 4, edge_mem = 2, edge_inv_mem = False \<rparr>,
        \<lparr> edge_src = 3, edge_sink = 4, edge_mem = 3, edge_inv_mem = True \<rparr>]"


section \<open>Properties\<close>

subsection \<open>Auxiliary facts\<close>

lemmas example_defs = example_circuit_lib_def example_mux_graph_def example_mux_lib_def example_impl_def

text \<open>
  The address width computed by halving is \<open>ceil(log2(data_size))\<close>, and an address of
  that width can name every position of the level.
\<close>

lemma addr_size_ceiling_log2:
  "1 \<le> n \<Longrightarrow> int (find_mux_local_decoder_addr_size n) = \<lceil>log 2 (real n)\<rceil>"
proof (induction n rule: find_mux_local_decoder_addr_size.induct)
  case (1 n)
  show ?case
  proof (cases "n \<le> 1")
    case True
    with "1.prems" have "n = 1" by simp
    then show ?thesis by (simp add: find_mux_local_decoder_addr_size.simps)
  next
    case False
    then have n2: "2 \<le> n" by simp
    have half: "(n + 1) div 2 = (n - 1) div 2 + 1" using n2 by arith
    have "1 \<le> (n + 1) div 2" using n2 by arith
    with "1.IH" False
    have ih: "int (find_mux_local_decoder_addr_size ((n + 1) div 2)) = \<lceil>log 2 (real ((n + 1) div 2))\<rceil>"
      by simp
    have "int (find_mux_local_decoder_addr_size n) =
          int (find_mux_local_decoder_addr_size ((n + 1) div 2)) + 1"
      using False by (subst find_mux_local_decoder_addr_size.simps) simp
    also have "\<dots> = \<lceil>log 2 (real ((n - 1) div 2 + 1))\<rceil> + 1"
      using ih half by simp
    also have "\<dots> = \<lceil>log 2 (real n)\<rceil>"
      using ceiling_log2_div2 [OF n2] by simp
    finally show ?thesis .
  qed
qed

lemma addr_size_covers: "n \<le> 2 ^ find_mux_local_decoder_addr_size n"
proof (induction n rule: find_mux_local_decoder_addr_size.induct)
  case (1 n)
  show ?case
  proof (cases "n \<le> 1")
    case True
    then show ?thesis by (simp add: find_mux_local_decoder_addr_size.simps)
  next
    case False
    with "1.IH" have ih: "(n + 1) div 2 \<le> 2 ^ find_mux_local_decoder_addr_size ((n + 1) div 2)"
      by simp
    have "n \<le> 2 * ((n + 1) div 2)" by arith
    also have "\<dots> \<le> 2 * 2 ^ find_mux_local_decoder_addr_size ((n + 1) div 2)"
      using ih by simp
    also have "\<dots> = 2 ^ find_mux_local_decoder_addr_size n"
      using False by (subst (2) find_mux_local_decoder_addr_size.simps) simp
    finally show ?thesis .
  qed
qed

text \<open>
  \<open>itobin_vec\<close> has the requested width, and reading its digits back gives the integer
  modulo \<open>2 ^ width\<close>.
\<close>

lemma length_itobin_vec: "length (itobin_vec n w) = w"
  by (induction w arbitrary: n) simp_all

lemma bin_to_nat_snoc: "bin_to_nat (bits @ [b]) = 2 * bin_to_nat bits + (if b then 1 else 0)"
  by (simp add: bin_to_nat_def)

lemma bin_to_nat_itobin_vec:
  "bin_to_nat (map (\<lambda>bit. 1 = bit) (itobin_vec n w)) = n mod 2 ^ w"
proof (induction w arbitrary: n)
  case 0
  show ?case by (simp add: bin_to_nat_def)
next
  case (Suc w)
  have digit: "(if 1 = n mod 2 then 1 else 0) = n mod 2"
    by presburger
  have "bin_to_nat (map (\<lambda>bit. 1 = bit) (itobin_vec n (Suc w))) =
        2 * bin_to_nat (map (\<lambda>bit. 1 = bit) (itobin_vec (n div 2) w)) +
        (if 1 = n mod 2 then 1 else 0)"
    by (simp only: itobin_vec.simps map_append list.map bin_to_nat_snoc)
  also have "\<dots> = 2 * ((n div 2) mod 2 ^ w) + n mod 2"
    by (simp only: Suc.IH digit)
  also have "\<dots> = n mod 2 ^ Suc w"
    by (simp add: mod_mult2_eq)
  finally show ?case .
qed

lemma itobin_vec_zero: "itobin_vec 0 w = replicate w 0"
  by (induction w) (simp_all add: replicate_append_same)

text \<open>
  The positions of a level whose bit is set, as the scan of the level collects them.
\<close>

lemma filter_upt_unique:
  assumes "p < n" and "\<forall>q<n. P q \<longleftrightarrow> q = p"
  shows "filter P [0..<n] = [p]"
proof -
  have "filter P [0..<n] = filter (\<lambda>q. q = p) [0..<n]"
    using assms(2) by (intro filter_cong) auto
  also have "\<dots> = [p]"
    using assms(1)
  proof (induction n)
    case 0 then show ?case by simp
  next
    case (Suc n)
    show ?case
    proof (cases "p = n")
      case True
      have "filter (\<lambda>q. q = p) [0..<n] = []" using True by (auto simp: filter_empty_conv)
      then show ?thesis using True by simp
    next
      case False
      with Suc.prems have "p < n" by simp
      with Suc.IH False show ?thesis by simp
    qed
  qed
  finally show ?thesis .
qed

lemma filter_upt_two:
  assumes "p < n" "q < n" "p \<noteq> q" "P p" "P q"
  shows "2 \<le> length (filter P [0..<n])"
proof -
  have "distinct [p, q]" using assms(3) by simp
  have sub: "set [p, q] \<subseteq> set (filter P [0..<n])" using assms by auto
  have "card (set [p, q]) \<le> card (set (filter P [0..<n]))"
    by (rule card_mono [OF _ sub]) simp
  moreover have "card (set [p, q]) = 2" using assms(3) by simp
  moreover have "card (set (filter P [0..<n])) \<le> length (filter P [0..<n])"
    by (rule card_length)
  ultimately show ?thesis by linarith
qed








text \<open>
  The loop over the levels handles a sequence of levels one part after the other, stops at
  the first level that fails (a level fails only by the assertion of line 351), and only
  appends to the bitstream.
\<close>

lemma encode_mux_levels_append:
  "encode_mux_levels g raw (before @ after) acc =
     (case encode_mux_levels g raw before acc of
        Inl e \<Rightarrow> Inl e
      | Inr bits \<Rightarrow> encode_mux_levels g raw after bits)"
  by (induction before arbitrary: acc) (simp_all split: sum.splits)

lemma encode_mux_level_error:
  assumes "encode_mux_level raw mems = Inl e"
  shows "e = AssertionFailed 351"
  using assms
  by (auto simp add: encode_mux_level_def Let_def split: if_splits)

lemma encode_mux_levels_fails:
  assumes "level \<in> set lvls"
    and "encode_mux_level raw (memories_at_level g level) = Inl e"
  shows "encode_mux_levels g raw lvls acc = Inl (AssertionFailed 351)"
  using assms(1)
proof (induction lvls arbitrary: acc)
  case Nil
  then show ?case by simp
next
  case (Cons l lvls)
  show ?case
  proof (cases "encode_mux_level raw (memories_at_level g l)")
    case (Inl e')
    then have "e' = AssertionFailed 351" by (rule encode_mux_level_error)
    with Inl show ?thesis by simp
  next
    case (Inr bits)
    with assms(2) have "l \<noteq> level" by auto
    with Cons.prems have "level \<in> set lvls" by simp
    with Cons.IH Inr show ?thesis by simp
  qed
qed

lemma encode_mux_levels_extends:
  assumes "encode_mux_levels g raw lvls acc = Inr out"
  shows "\<exists>suffix. out = acc @ suffix"
  using assms
proof (induction lvls arbitrary: acc)
  case Nil
  then show ?case by simp
next
  case (Cons l lvls)
  from Cons.prems obtain bits where
    "encode_mux_levels g raw lvls (acc @ bits) = Inr out"
    by (auto split: sum.splits)
  from Cons.IH [OF this] show ?case by auto
qed

text \<open>
  For a model with a local encoder, once the graph is found, the path id accepted and the
  two assertions on the graph passed, the result of \<open>build_cmos_mux_bitstream\<close> is the
  result of the loop over the levels of the graph, run on the decoded bitstream.  A level
  that is encoded as \<open>bits\<close> contributes exactly \<open>bits\<close>, after the bits of the levels
  before it and before the bits of the levels after it.
\<close>

lemma build_cmos_mux_bitstream_local_encoder:
  assumes "mux_use_local_encoder circuit_lib mux_model"
    and "mux_lib_mux_graph mux_lib mux_model mux_size = Inr mux_graph"
    and "cmos_mux_datapath_id circuit_lib mux_model (impl circuit_lib mux_model mux_size)
           mux_size path_id = Inr datapath_id"
    and "unat datapath_id < length (inputs mux_graph)"
    and "length (outputs mux_graph) = 1"
  shows "build_cmos_mux_bitstream impl circuit_lib mux_model mux_lib mux_size path_id =
           encode_mux_levels mux_graph
             (decode_memory_bits mux_graph (unat datapath_id)
                (output_id mux_graph (outputs mux_graph ! 0)))
             (levels mux_graph) []"
  using assms
  by (simp add: build_cmos_mux_bitstream_def cmos_mux_bitstream_of_datapath_def)

lemma build_cmos_mux_bitstream_level:
  assumes "mux_use_local_encoder circuit_lib mux_model"
    and "mux_lib_mux_graph mux_lib mux_model mux_size = Inr mux_graph"
    and "cmos_mux_datapath_id circuit_lib mux_model (impl circuit_lib mux_model mux_size)
           mux_size path_id = Inr datapath_id"
    and "unat datapath_id < length (inputs mux_graph)"
    and "length (outputs mux_graph) = 1"
    and "raw_bitstream =
           decode_memory_bits mux_graph (unat datapath_id)
             (output_id mux_graph (outputs mux_graph ! 0))"
    and "levels mux_graph = before @ level # after"
    and "encode_mux_level raw_bitstream (memories_at_level mux_graph level) = Inr bits"
  shows "build_cmos_mux_bitstream impl circuit_lib mux_model mux_lib mux_size path_id =
           (case encode_mux_levels mux_graph raw_bitstream before [] of
              Inl e \<Rightarrow> Inl e
            | Inr prefix \<Rightarrow> encode_mux_levels mux_graph raw_bitstream after (prefix @ bits))"
    and "build_cmos_mux_bitstream impl circuit_lib mux_model mux_lib mux_size path_id =
           Inr mux_bitstream \<Longrightarrow>
         \<exists>prefix suffix.
            encode_mux_levels mux_graph raw_bitstream before [] = Inr prefix \<and>
            mux_bitstream = prefix @ bits @ suffix"
proof -
  have whole: "build_cmos_mux_bitstream impl circuit_lib mux_model mux_lib mux_size path_id =
                 encode_mux_levels mux_graph raw_bitstream (before @ level # after) []"
    using build_cmos_mux_bitstream_local_encoder [where impl = impl, OF assms(1-5)] assms(6,7)
    by simp
  show eq: "build_cmos_mux_bitstream impl circuit_lib mux_model mux_lib mux_size path_id =
           (case encode_mux_levels mux_graph raw_bitstream before [] of
              Inl e \<Rightarrow> Inl e
            | Inr prefix \<Rightarrow> encode_mux_levels mux_graph raw_bitstream after (prefix @ bits))"
    unfolding whole using assms(8)
    by (simp add: encode_mux_levels_append split: sum.splits)
  assume "build_cmos_mux_bitstream impl circuit_lib mux_model mux_lib mux_size path_id =
            Inr mux_bitstream"
  with eq obtain prefix where
    before: "encode_mux_levels mux_graph raw_bitstream before [] = Inr prefix"
    and after: "encode_mux_levels mux_graph raw_bitstream after (prefix @ bits) =
                  Inr mux_bitstream"
    by (auto split: sum.splits)
  from encode_mux_levels_extends [OF after] obtain suffix where
    "mux_bitstream = (prefix @ bits) @ suffix"
    by blast
  with before show "\<exists>prefix suffix.
            encode_mux_levels mux_graph raw_bitstream before [] = Inr prefix \<and>
            mux_bitstream = prefix @ bits @ suffix"
    by auto
qed

text \<open>
  One round of the loop: a level whose size is not one, a level with one set memory, a level
  with none, a level with two, and a level of size one.
\<close>

lemma encode_mux_level_multi:
  assumes "1 \<noteq> length mems"
  shows "encode_mux_level raw_bitstream mems =
     (if 2 \<le> length (filter (\<lambda>mem_index. raw_bitstream ! (mems ! mem_index))
                         [0..<length mems])
      then Inl (AssertionFailed 351)
      else Inr (map (\<lambda>bit. 1 = bit)
                  (itobin_vec
                     (case filter (\<lambda>mem_index. raw_bitstream ! (mems ! mem_index))
                             [0..<length mems] of
                        [] \<Rightarrow> 0 | mem_index # rest \<Rightarrow> mem_index)
                     (find_mux_local_decoder_addr_size (length mems)))))"
proof -
  let ?data = "filter (\<lambda>mem_index. raw_bitstream ! (mems ! mem_index)) [0..<length mems]"
  have unfolded: "encode_mux_level raw_bitstream mems =
        (if \<not> (0 = length ?data \<or> 1 = length ?data)
         then Inl (AssertionFailed 351)
         else if 0 = length ?data
         then Inr (map (\<lambda>bit. 1 = bit)
                    (itobin_vec 0 (find_mux_local_decoder_addr_size (length mems))))
         else if \<not> 1 = length ?data then Inl (AssertionFailed 359)
         else Inr (map (\<lambda>bit. 1 = bit)
                    (itobin_vec (?data ! 0)
                       (find_mux_local_decoder_addr_size (length mems)))))"
    unfolding encode_mux_level_def Let_def using assms
    by (simp only: if_False if_True not_True_eq_False simp_thms)
  show ?thesis
  proof (cases ?data)
    case Nil
    then show ?thesis unfolding unfolded by simp
  next
    case (Cons mem_index rest)
    show ?thesis
    proof (cases rest)
      case Nil
      with Cons show ?thesis unfolding unfolded by simp
    next
      case (Cons mem_index' rest')
      with \<open>?data = mem_index # rest\<close> show ?thesis unfolding unfolded by simp
    qed
  qed
qed

lemma encode_mux_level_one_hot:
  assumes "2 \<le> length mems" and "p < length mems"
    and "\<forall>q<length mems. raw_bitstream ! (mems ! q) = (q = p)"
  shows "encode_mux_level raw_bitstream mems =
           Inr (map (\<lambda>bit. 1 = bit)
                  (itobin_vec p (find_mux_local_decoder_addr_size (length mems))))"
proof -
  have data: "filter (\<lambda>mem_index. raw_bitstream ! (mems ! mem_index)) [0..<length mems] = [p]"
    using assms(2,3) by (intro filter_upt_unique) simp_all
  from assms(1) have "1 \<noteq> length mems" by simp
  then show ?thesis by (simp add: encode_mux_level_multi data)
qed

lemma encode_mux_level_unset:
  assumes "2 \<le> length mems"
    and "\<forall>q<length mems. \<not> raw_bitstream ! (mems ! q)"
  shows "encode_mux_level raw_bitstream mems =
           Inr (replicate (find_mux_local_decoder_addr_size (length mems)) False)"
proof -
  have data: "filter (\<lambda>mem_index. raw_bitstream ! (mems ! mem_index)) [0..<length mems] = []"
    using assms(2) by (simp add: filter_empty_conv)
  have zero: "map (\<lambda>bit. 1 = bit)
                (itobin_vec 0 (find_mux_local_decoder_addr_size (length mems))) =
              replicate (find_mux_local_decoder_addr_size (length mems)) False"
    by (simp add: itobin_vec_zero)
  from assms(1) have "1 \<noteq> length mems" by simp
  then have "encode_mux_level raw_bitstream mems =
               Inr (map (\<lambda>bit. 1 = bit)
                      (itobin_vec 0 (find_mux_local_decoder_addr_size (length mems))))"
    by (simp add: encode_mux_level_multi data)
  with zero show ?thesis by simp
qed

lemma encode_mux_level_two_hot:
  assumes "p < length mems" and "q < length mems" and "p \<noteq> q"
    and "raw_bitstream ! (mems ! p)" and "raw_bitstream ! (mems ! q)"
  shows "encode_mux_level raw_bitstream mems = Inl (AssertionFailed 351)"
proof -
  from assms(1-3) have "2 \<le> length mems" by linarith
  then have not_single: "1 \<noteq> length mems" by simp
  have "2 \<le> length (filter (\<lambda>mem_index. raw_bitstream ! (mems ! mem_index))
                        [0..<length mems])"
    using assms by (intro filter_upt_two [of p _ q]) simp_all
  with not_single show ?thesis by (simp add: encode_mux_level_multi)
qed

lemma encode_mux_level_single:
  assumes "length mems = 1"
  shows "encode_mux_level raw_bitstream mems = Inr [raw_bitstream ! (mems ! 0)]"
  using assms by (simp add: encode_mux_level_def)

text \<open>
  Iteration with a body that may fail: a loop whose body fails exactly on the elements that violate a
  condition; a property of the state that every round keeps; a property that one round
  establishes and every round keeps.
\<close>

lemma for_each_guarded:
  assumes "\<And>x s. x \<in> set xs \<Longrightarrow> ok x \<Longrightarrow> \<exists>s'. body x s = Inr s'"
    and "\<And>x s. x \<in> set xs \<Longrightarrow> \<not> ok x \<Longrightarrow> body x s = Inl E"
  shows "(list_all ok xs \<longrightarrow> (\<exists>s'. for_each body xs s = Inr s'))
       \<and> (\<not> list_all ok xs \<longrightarrow> for_each body xs s = Inl E)"
  using assms
proof (induction xs arbitrary: s)
  case Nil
  show ?case by simp
next
  case (Cons x xs)
  show ?case
  proof (cases "ok x")
    case False
    with Cons.prems(2) [of x s] show ?thesis by simp
  next
    case True
    with Cons.prems(1) [of x s] obtain s1 where step: "body x s = Inr s1" by auto
    have "(list_all ok xs \<longrightarrow> (\<exists>s'. for_each body xs s1 = Inr s'))
        \<and> (\<not> list_all ok xs \<longrightarrow> for_each body xs s1 = Inl E)"
      using Cons.prems by (intro Cons.IH) simp_all
    with True step show ?thesis by simp
  qed
qed

lemma for_each_preserve:
  assumes "for_each body xs s = Inr s'" and "Q s"
    and "\<And>x s1 s2. x \<in> set xs \<Longrightarrow> body x s1 = Inr s2 \<Longrightarrow> Q s1 \<Longrightarrow> Q s2"
  shows "Q s'"
  using assms
proof (induction xs arbitrary: s)
  case Nil
  then show ?case by simp
next
  case (Cons x xs)
  from Cons.prems(1) obtain s1 where step: "body x s = Inr s1"
    and rest: "for_each body xs s1 = Inr s'"
    by (auto split: sum.splits)
  from Cons.prems(3) [of x s s1] step Cons.prems(2) have start: "Q s1" by simp
  have pres: "Q s2" if "z \<in> set xs" and "body z t = Inr s2" and "Q t" for z t s2
    using Cons.prems(3) [of z t s2] that by simp
  from rest start pres show ?case by (rule Cons.IH)
qed

lemma for_each_establish:
  assumes "for_each body xs s = Inr s'" and "x \<in> set xs"
    and "\<And>s1 s2. body x s1 = Inr s2 \<Longrightarrow> Q s2"
    and "\<And>y s1 s2. y \<in> set xs \<Longrightarrow> body y s1 = Inr s2 \<Longrightarrow> Q s1 \<Longrightarrow> Q s2"
  shows "Q s'"
  using assms(1,2,4)
proof (induction xs arbitrary: s)
  case Nil
  then show ?case by simp
next
  case (Cons y ys)
  from Cons.prems(1) obtain s1 where step: "body y s = Inr s1"
    and rest: "for_each body ys s1 = Inr s'"
    by (auto split: sum.splits)
  have pres: "Q s2" if "z \<in> set ys" and "body z t = Inr s2" and "Q t" for z t s2
    using Cons.prems(3) [of z t s2] that by simp
  show ?case
  proof (cases "x = y")
    case True
    with step assms(3) have start: "Q s1" by simp
    from rest start pres show ?thesis by (rule for_each_preserve)
  next
    case False
    with Cons.prems(2) have later: "x \<in> set ys" by simp
    from rest later pres show ?thesis by (rule Cons.IH)
  qed
qed

text \<open>
  One round of the loop over the outputs, by the number of edges between the input and the
  output.
\<close>

lemma mux_branch_output_step_cases:
  "mux_branch_output_step mgr circuit_lib mux_graph tgate_model
       tgate_input_ports tgate_output_ports output_port mem_port mem_inv_port
       module_id tgate_module_id cur_input_port mux_input mux_output (module_manager, fp) =
     (case find_edges mux_graph mux_input mux_output of
        [] \<Rightarrow> Inr (module_manager, fp)
      | [edge] \<Rightarrow>
          Inr (add_child_module mgr module_manager module_id tgate_module_id,
               fp_print fp
                 (Print_verilog_module_instance module_manager module_id tgate_module_id
                    ((((Map.empty
                        (port_lib_name circuit_lib (tgate_input_ports ! 0) \<mapsto> cur_input_port))
                        (port_lib_name circuit_lib (tgate_output_ports ! 0) \<mapsto>
                           BasicPort_lsb_msb (get_name output_port)
                             (output_id mux_graph mux_output) (output_id mux_graph mux_output)))
                        (port_lib_name circuit_lib (tgate_input_ports ! 1) \<mapsto>
                           BasicPort_lsb_msb
                             (if is_edge_use_inv_mem mux_graph edge
                              then get_name mem_inv_port else get_name mem_port)
                             (find_edge_mem mux_graph edge) (find_edge_mem mux_graph edge)))
                        (port_lib_name circuit_lib (tgate_input_ports ! 2) \<mapsto>
                           BasicPort_lsb_msb
                             (if is_edge_use_inv_mem mux_graph edge
                              then get_name mem_port else get_name mem_inv_port)
                             (find_edge_mem mux_graph edge) (find_edge_mem mux_graph edge)))
                    (dump_explicit_port_map circuit_lib tgate_model)))
      | edge # edge' # rest \<Rightarrow> Inl (AssertionFailed 115))"
  by (simp add: mux_branch_output_step_def Let_def split: list.splits)

text \<open>
  The loop over the outputs and the loop over the inputs succeed exactly when no pair of an input and an output has
  more than one edge, and fail with the assertion of line 115 otherwise.
\<close>

lemma mux_branch_outputs_loop:
  "(list_all (\<lambda>mux_output. length (find_edges mux_graph mux_input mux_output) \<le> 1) outs \<longrightarrow>
      (\<exists>s'. for_each
               (mux_branch_output_step mgr circuit_lib mux_graph tgate_model
                  tgate_input_ports tgate_output_ports output_port mem_port mem_inv_port
                  module_id tgate_module_id cur_input_port mux_input) outs s = Inr s'))
   \<and> (\<not> list_all (\<lambda>mux_output. length (find_edges mux_graph mux_input mux_output) \<le> 1) outs \<longrightarrow>
        for_each
          (mux_branch_output_step mgr circuit_lib mux_graph tgate_model
             tgate_input_ports tgate_output_ports output_port mem_port mem_inv_port
             module_id tgate_module_id cur_input_port mux_input) outs s =
        Inl (AssertionFailed 115))"
proof (rule for_each_guarded)
  fix mux_output and t :: "'a \<times> 'a fstream"
  assume "length (find_edges mux_graph mux_input mux_output) \<le> 1"
  then show "\<exists>s'. mux_branch_output_step mgr circuit_lib mux_graph tgate_model
                 tgate_input_ports tgate_output_ports output_port mem_port mem_inv_port
                 module_id tgate_module_id cur_input_port mux_input mux_output t = Inr s'"
    by (cases t) (auto simp add: mux_branch_output_step_cases split: list.splits)
next
  fix mux_output and t :: "'a \<times> 'a fstream"
  assume "\<not> length (find_edges mux_graph mux_input mux_output) \<le> 1"
  then show "mux_branch_output_step mgr circuit_lib mux_graph tgate_model
               tgate_input_ports tgate_output_ports output_port mem_port mem_inv_port
               module_id tgate_module_id cur_input_port mux_input mux_output t =
             Inl (AssertionFailed 115)"
    by (cases t) (auto simp add: mux_branch_output_step_cases split: list.splits)
qed

lemma mux_branch_inputs_loop:
  "(at_most_one_edge mux_graph \<longrightarrow>
      (\<exists>s'. for_each
               (mux_branch_input_step mgr circuit_lib mux_graph tgate_model
                  tgate_input_ports tgate_output_ports input_port output_port mem_port
                  mem_inv_port module_id tgate_module_id) (inputs mux_graph) s = Inr s'))
   \<and> (\<not> at_most_one_edge mux_graph \<longrightarrow>
        for_each
          (mux_branch_input_step mgr circuit_lib mux_graph tgate_model
             tgate_input_ports tgate_output_ports input_port output_port mem_port
             mem_inv_port module_id tgate_module_id) (inputs mux_graph) s =
        Inl (AssertionFailed 115))"
  unfolding at_most_one_edge_def
proof (rule for_each_guarded)
  fix mux_input and t :: "'a \<times> 'a fstream"
  assume "list_all (\<lambda>mux_output. length (find_edges mux_graph mux_input mux_output) \<le> 1)
            (outputs mux_graph)"
  then show "\<exists>s'. mux_branch_input_step mgr circuit_lib mux_graph tgate_model
                 tgate_input_ports tgate_output_ports input_port output_port mem_port
                 mem_inv_port module_id tgate_module_id mux_input t = Inr s'"
    unfolding mux_branch_input_step_def Let_def
    using mux_branch_outputs_loop by blast
next
  fix mux_input and t :: "'a \<times> 'a fstream"
  assume "\<not> list_all (\<lambda>mux_output. length (find_edges mux_graph mux_input mux_output) \<le> 1)
              (outputs mux_graph)"
  then show "mux_branch_input_step mgr circuit_lib mux_graph tgate_model
               tgate_input_ports tgate_output_ports input_port output_port mem_port
               mem_inv_port module_id tgate_module_id mux_input t = Inl (AssertionFailed 115)"
    unfolding mux_branch_input_step_def Let_def
    using mux_branch_outputs_loop by blast
qed

lemma mux_branch_inputs_loop_fails:
  assumes "\<not> at_most_one_edge mux_graph"
  shows "for_each
          (mux_branch_input_step mgr circuit_lib mux_graph tgate_model
             tgate_input_ports tgate_output_ports input_port output_port mem_port
             mem_inv_port module_id tgate_module_id) (inputs mux_graph) s =
        Inl (AssertionFailed 115)"
  using assms mux_branch_inputs_loop by blast

lemma mux_branch_inputs_loop_succeeds:
  assumes "at_most_one_edge mux_graph"
  shows "\<exists>s'. for_each
          (mux_branch_input_step mgr circuit_lib mux_graph tgate_model
             tgate_input_ports tgate_output_ports input_port output_port mem_port
             mem_inv_port module_id tgate_module_id) (inputs mux_graph) s = Inr s'"
  using assms mux_branch_inputs_loop by blast

text \<open>
  What a result of the writer says about its loop over the inputs.
\<close>

lemma generate_structural_Inr:
  assumes "generate_verilog_cmos_mux_branch_module_structural mgr circuit_lib circuit_model
             module_name mux_graph (module_manager, fp) = Inr s'"
    and "model_type circuit_lib (pass_gate_logic_model circuit_lib circuit_model) \<noteq>
           SPICE_MODEL_GATE"
  shows "\<exists>input_port output_port mem_port mem_inv_port
            module_manager6 fp2 module_id tgate_module_id s''.
           get_name input_port = ''in'' \<and> get_name output_port = ''out''
         \<and> get_name mem_port = ''mem'' \<and> get_name mem_inv_port = ''mem_inv''
         \<and> for_each
             (mux_branch_input_step mgr circuit_lib mux_graph
                (pass_gate_logic_model circuit_lib circuit_model)
                (model_input_ports circuit_lib (pass_gate_logic_model circuit_lib circuit_model))
                (model_output_ports circuit_lib (pass_gate_logic_model circuit_lib circuit_model))
                input_port output_port mem_port mem_inv_port module_id tgate_module_id)
             (inputs mux_graph) (module_manager6, fp2) = Inr s''
         \<and> set (fp_out (snd s'')) \<subseteq> set (fp_out (snd s'))"
proof -
  let ?tgate = "pass_gate_logic_model circuit_lib circuit_model"
  let ?loop = "\<lambda>input_port output_port mem_port mem_inv_port module_id tgate_module_id.
         for_each
           (mux_branch_input_step mgr circuit_lib mux_graph ?tgate
              (model_input_ports circuit_lib ?tgate) (model_output_ports circuit_lib ?tgate)
              input_port output_port mem_port mem_inv_port module_id tgate_module_id)
           (inputs mux_graph)"
  from assms obtain module_manager6 fp2 module_id tgate_module_id where
    run: "(case ?loop (BasicPort_width ''in'' (num_inputs mux_graph))
                  (BasicPort_width ''out'' (num_outputs mux_graph))
                  (BasicPort_width ''mem'' (num_memory_bits mux_graph))
                  (BasicPort_width ''mem_inv'' (num_memory_bits mux_graph))
                  module_id tgate_module_id (module_manager6, fp2) of
             Inl e \<Rightarrow> Inl e
           | Inr (module_manager7, fp3) \<Rightarrow>
               Inr (module_manager7, fp_print fp3 (Print_verilog_module_end module_name))) =
          Inr s'"
    unfolding generate_verilog_cmos_mux_branch_module_structural_def Let_def
    by (simp only: prod.case split: if_splits prod.splits option.splits) blast+
  then obtain s'' where
    loop: "?loop (BasicPort_width ''in'' (num_inputs mux_graph))
                  (BasicPort_width ''out'' (num_outputs mux_graph))
                  (BasicPort_width ''mem'' (num_memory_bits mux_graph))
                  (BasicPort_width ''mem_inv'' (num_memory_bits mux_graph))
                  module_id tgate_module_id (module_manager6, fp2) = Inr s''"
    and out: "s' = (fst s'', fp_print (snd s'') (Print_verilog_module_end module_name))"
    by (auto split: sum.splits)
  from out have "set (fp_out (snd s'')) \<subseteq> set (fp_out (snd s'))"
    by (auto simp add: fp_print_def)
  with loop show ?thesis
    by (intro exI [of _ "BasicPort_width ''in'' (num_inputs mux_graph)"]
              exI [of _ "BasicPort_width ''out'' (num_outputs mux_graph)"]
              exI [of _ "BasicPort_width ''mem'' (num_memory_bits mux_graph)"]
              exI [of _ "BasicPort_width ''mem_inv'' (num_memory_bits mux_graph)"]
              exI [of _ module_manager6] exI [of _ fp2] exI [of _ module_id]
              exI [of _ tgate_module_id] exI [of _ s'']) simp
qed

lemma generate_structural_Inl_115:
  assumes "generate_verilog_cmos_mux_branch_module_structural mgr circuit_lib circuit_model
             module_name mux_graph (module_manager, fp) = Inl (AssertionFailed 115)"
  shows "\<exists>tgate_model tgate_input_ports tgate_output_ports
            input_port output_port mem_port mem_inv_port
            module_manager6 fp2 module_id tgate_module_id.
           for_each
             (mux_branch_input_step mgr circuit_lib mux_graph tgate_model
                tgate_input_ports tgate_output_ports
                input_port output_port mem_port mem_inv_port module_id tgate_module_id)
             (inputs mux_graph) (module_manager6, fp2) = Inl (AssertionFailed 115)"
proof -
  from assms obtain tgate_model tgate_input_ports tgate_output_ports
            input_port output_port mem_port mem_inv_port
            module_manager6 fp2 module_id tgate_module_id end_name where
    "(case for_each
             (mux_branch_input_step mgr circuit_lib mux_graph tgate_model
                tgate_input_ports tgate_output_ports
                input_port output_port mem_port mem_inv_port module_id tgate_module_id)
             (inputs mux_graph) (module_manager6, fp2) of
        Inl e \<Rightarrow> Inl e
      | Inr (module_manager7, fp3) \<Rightarrow>
          Inr (module_manager7, fp_print fp3 (Print_verilog_module_end end_name))) =
     Inl (AssertionFailed 115)"
    unfolding generate_verilog_cmos_mux_branch_module_structural_def Let_def
    by (simp only: prod.case sum.inject error.inject error.distinct sum.distinct
          split: if_splits prod.splits option.splits)
  then have "for_each
             (mux_branch_input_step mgr circuit_lib mux_graph tgate_model
                tgate_input_ports tgate_output_ports
                input_port output_port mem_port mem_inv_port module_id tgate_module_id)
             (inputs mux_graph) (module_manager6, fp2) = Inl (AssertionFailed 115)"
    by (simp split: sum.splits prod.splits)
  then show ?thesis by blast
qed

text \<open>
  The calls printed by a round stay in the file, and the round of a pair with one edge
  prints the instance of the pass gate.
\<close>

lemma mux_branch_output_step_mono:
  assumes "mux_branch_output_step mgr circuit_lib mux_graph tgate_model
             tgate_input_ports tgate_output_ports output_port mem_port mem_inv_port
             module_id tgate_module_id cur_input_port mux_input mux_output s1 = Inr s2"
  shows "set (fp_out (snd s1)) \<subseteq> set (fp_out (snd s2))"
  using assms
  by (cases s1) (auto simp add: mux_branch_output_step_cases fp_print_def split: list.splits)

lemma mux_branch_output_step_prints:
  assumes "mux_branch_output_step mgr circuit_lib mux_graph tgate_model
             tgate_input_ports tgate_output_ports output_port mem_port mem_inv_port
             module_id tgate_module_id cur_input_port mux_input mux_output s1 = Inr s2"
    and "find_edges mux_graph mux_input mux_output = [edge]"
  shows "\<exists>mm. Print_verilog_module_instance mm module_id tgate_module_id
                ((((Map.empty
                    (port_lib_name circuit_lib (tgate_input_ports ! 0) \<mapsto> cur_input_port))
                    (port_lib_name circuit_lib (tgate_output_ports ! 0) \<mapsto>
                       BasicPort_lsb_msb (get_name output_port)
                         (output_id mux_graph mux_output) (output_id mux_graph mux_output)))
                    (port_lib_name circuit_lib (tgate_input_ports ! 1) \<mapsto>
                       BasicPort_lsb_msb
                         (if is_edge_use_inv_mem mux_graph edge
                          then get_name mem_inv_port else get_name mem_port)
                         (find_edge_mem mux_graph edge) (find_edge_mem mux_graph edge)))
                    (port_lib_name circuit_lib (tgate_input_ports ! 2) \<mapsto>
                       BasicPort_lsb_msb
                         (if is_edge_use_inv_mem mux_graph edge
                          then get_name mem_port else get_name mem_inv_port)
                         (find_edge_mem mux_graph edge) (find_edge_mem mux_graph edge)))
                (dump_explicit_port_map circuit_lib tgate_model)
              \<in> set (fp_out (snd s2))"
proof (cases s1)
  case (Pair module_manager fp)
  with assms have "fp_out (snd s2) = fp_out fp @
      [Print_verilog_module_instance module_manager module_id tgate_module_id
                ((((Map.empty
                    (port_lib_name circuit_lib (tgate_input_ports ! 0) \<mapsto> cur_input_port))
                    (port_lib_name circuit_lib (tgate_output_ports ! 0) \<mapsto>
                       BasicPort_lsb_msb (get_name output_port)
                         (output_id mux_graph mux_output) (output_id mux_graph mux_output)))
                    (port_lib_name circuit_lib (tgate_input_ports ! 1) \<mapsto>
                       BasicPort_lsb_msb
                         (if is_edge_use_inv_mem mux_graph edge
                          then get_name mem_inv_port else get_name mem_port)
                         (find_edge_mem mux_graph edge) (find_edge_mem mux_graph edge)))
                    (port_lib_name circuit_lib (tgate_input_ports ! 2) \<mapsto>
                       BasicPort_lsb_msb
                         (if is_edge_use_inv_mem mux_graph edge
                          then get_name mem_port else get_name mem_inv_port)
                         (find_edge_mem mux_graph edge) (find_edge_mem mux_graph edge)))
                (dump_explicit_port_map circuit_lib tgate_model)]"
    by (auto simp add: mux_branch_output_step_cases fp_print_def)
  then show ?thesis by (intro exI [of _ module_manager]) simp
qed

lemma mux_branch_input_step_mono:
  assumes "mux_branch_input_step mgr circuit_lib mux_graph tgate_model
             tgate_input_ports tgate_output_ports input_port output_port mem_port mem_inv_port
             module_id tgate_module_id mux_input s1 = Inr s2"
    and "call \<in> set (fp_out (snd s1))"
  shows "call \<in> set (fp_out (snd s2))"
proof -
  from assms(1) have loop:
    "for_each
       (mux_branch_output_step mgr circuit_lib mux_graph tgate_model
          tgate_input_ports tgate_output_ports output_port mem_port mem_inv_port
          module_id tgate_module_id
          (BasicPort_lsb_msb (get_name input_port)
             (input_id mux_graph mux_input) (input_id mux_graph mux_input)) mux_input)
       (outputs mux_graph) s1 = Inr s2"
    by (simp add: mux_branch_input_step_def)
  show ?thesis
  proof (rule for_each_preserve
                [where Q = "\<lambda>s. call \<in> set (fp_out (snd s))", OF loop assms(2)])
    fix mux_output t1 t2
    assume "mux_branch_output_step mgr circuit_lib mux_graph tgate_model
              tgate_input_ports tgate_output_ports output_port mem_port mem_inv_port
              module_id tgate_module_id
              (BasicPort_lsb_msb (get_name input_port)
                 (input_id mux_graph mux_input) (input_id mux_graph mux_input))
              mux_input mux_output t1 = Inr t2"
      and "call \<in> set (fp_out (snd t1))"
    then show "call \<in> set (fp_out (snd t2))"
      using mux_branch_output_step_mono by blast
  qed
qed

lemma mux_branch_input_step_prints:
  assumes "mux_branch_input_step mgr circuit_lib mux_graph tgate_model
             tgate_input_ports tgate_output_ports input_port output_port mem_port mem_inv_port
             module_id tgate_module_id mux_input s1 = Inr s2"
    and "mux_output \<in> set (outputs mux_graph)"
    and "find_edges mux_graph mux_input mux_output = [edge]"
  shows "\<exists>mm. Print_verilog_module_instance mm module_id tgate_module_id
                ((((Map.empty
                    (port_lib_name circuit_lib (tgate_input_ports ! 0) \<mapsto>
                       BasicPort_lsb_msb (get_name input_port)
                         (input_id mux_graph mux_input) (input_id mux_graph mux_input)))
                    (port_lib_name circuit_lib (tgate_output_ports ! 0) \<mapsto>
                       BasicPort_lsb_msb (get_name output_port)
                         (output_id mux_graph mux_output) (output_id mux_graph mux_output)))
                    (port_lib_name circuit_lib (tgate_input_ports ! 1) \<mapsto>
                       BasicPort_lsb_msb
                         (if is_edge_use_inv_mem mux_graph edge
                          then get_name mem_inv_port else get_name mem_port)
                         (find_edge_mem mux_graph edge) (find_edge_mem mux_graph edge)))
                    (port_lib_name circuit_lib (tgate_input_ports ! 2) \<mapsto>
                       BasicPort_lsb_msb
                         (if is_edge_use_inv_mem mux_graph edge
                          then get_name mem_port else get_name mem_inv_port)
                         (find_edge_mem mux_graph edge) (find_edge_mem mux_graph edge)))
                (dump_explicit_port_map circuit_lib tgate_model)
              \<in> set (fp_out (snd s2))"
    (is "\<exists>mm. ?call mm \<in> set (fp_out (snd s2))")
proof -
  from assms(1) have loop:
    "for_each
       (mux_branch_output_step mgr circuit_lib mux_graph tgate_model
          tgate_input_ports tgate_output_ports output_port mem_port mem_inv_port
          module_id tgate_module_id
          (BasicPort_lsb_msb (get_name input_port)
             (input_id mux_graph mux_input) (input_id mux_graph mux_input)) mux_input)
       (outputs mux_graph) s1 = Inr s2"
    by (simp add: mux_branch_input_step_def)
  show ?thesis
  proof (rule for_each_establish
                [where Q = "\<lambda>s. \<exists>mm. ?call mm \<in> set (fp_out (snd s))", OF loop assms(2)])
    fix t1 t2
    assume "mux_branch_output_step mgr circuit_lib mux_graph tgate_model
              tgate_input_ports tgate_output_ports output_port mem_port mem_inv_port
              module_id tgate_module_id
              (BasicPort_lsb_msb (get_name input_port)
                 (input_id mux_graph mux_input) (input_id mux_graph mux_input))
              mux_input mux_output t1 = Inr t2"
    then show "\<exists>mm. ?call mm \<in> set (fp_out (snd t2))"
      using assms(3) by (rule mux_branch_output_step_prints)
  next
    fix other t1 t2
    assume "mux_branch_output_step mgr circuit_lib mux_graph tgate_model
              tgate_input_ports tgate_output_ports output_port mem_port mem_inv_port
              module_id tgate_module_id
              (BasicPort_lsb_msb (get_name input_port)
                 (input_id mux_graph mux_input) (input_id mux_graph mux_input))
              mux_input other t1 = Inr t2"
      and "\<exists>mm. ?call mm \<in> set (fp_out (snd t1))"
    then show "\<exists>mm. ?call mm \<in> set (fp_out (snd t2))"
      using mux_branch_output_step_mono by blast
  qed
qed

text \<open>
  A graph that reads its edges from a table of edges has at most one edge between any
  input and any output, and the writer behaves on any graph as the predicate says.
\<close>

lemma edges_find_edges_at_most_one:
  "length (edges_find_edges edges src sink) \<le> 1"
proof -
  let ?table = "edge_list edges"
  let ?key = "\<lambda>e. (edge_src e, edge_sink e)"
  let ?found = "edges_find_edges edges src sink"
  have keys: "distinct (map ?key ?table)"
    using edge_list [of edges] by simp
  have found: "edge < length ?table \<and> ?key (?table ! edge) = (src, sink)"
    if "edge \<in> set ?found" for edge
    using that unfolding edges_find_edges_def by simp
  have same: "edge = edge'" if "edge \<in> set ?found" and "edge' \<in> set ?found" for edge edge'
  proof -
    from found [OF that(1)] have first: "edge < length (map ?key ?table)" by simp
    from found [OF that(2)] have second: "edge' < length (map ?key ?table)" by simp
    from found [OF that(1)] found [OF that(2)]
    have "map ?key ?table ! edge = map ?key ?table ! edge'" by simp
    with nth_eq_iff_index_eq [OF keys first second] show ?thesis by blast
  qed
  have dist: "distinct ?found" unfolding edges_find_edges_def by simp
  show ?thesis
  proof (cases ?found)
    case Nil
    then show ?thesis by simp
  next
    case (Cons edge rest)
    show ?thesis
    proof (cases rest)
      case Nil
      with Cons show ?thesis by simp
    next
      case (Cons edge' rest')
      with \<open>?found = edge # rest\<close> have both: "?found = edge # edge' # rest'" by simp
      then have "edge \<in> set ?found" and "edge' \<in> set ?found" by simp_all
      then have "edge = edge'" by (rule same)
      moreover from dist both have "edge \<noteq> edge'" by simp
      ultimately show ?thesis by simp
    qed
  qed
qed

lemma at_most_one_edge_with_edges:
  "at_most_one_edge (mux_graph_with_edges mux_graph edges)"
proof -
  have "length (find_edges (mux_graph_with_edges mux_graph edges) src sink) \<le> 1" for src sink
    unfolding mux_graph_with_edges_def by (simp add: edges_find_edges_at_most_one [simplified])
  then show ?thesis
    unfolding at_most_one_edge_def list_all_iff by blast
qed

lemma writer_edge_assertion:
  "(at_most_one_edge mux_graph \<longrightarrow>
      generate_verilog_cmos_mux_branch_module_structural mgr circuit_lib circuit_model
        module_name mux_graph (module_manager, fp) \<noteq> Inl (AssertionFailed 115))
   \<and> (model_type circuit_lib (pass_gate_logic_model circuit_lib circuit_model) \<noteq>
         SPICE_MODEL_GATE \<longrightarrow>
       generate_verilog_cmos_mux_branch_module_structural mgr circuit_lib circuit_model
         module_name mux_graph (module_manager, fp) = Inr s' \<longrightarrow>
       at_most_one_edge mux_graph)
   \<and> (model_type circuit_lib (pass_gate_logic_model circuit_lib circuit_model) \<noteq>
         SPICE_MODEL_GATE \<longrightarrow>
       \<not> at_most_one_edge mux_graph \<longrightarrow>
       (\<exists>e. generate_verilog_cmos_mux_branch_module_structural mgr circuit_lib circuit_model
              module_name mux_graph (module_manager, fp) = Inl e))"
proof (intro conjI impI)
  assume inv: "at_most_one_edge mux_graph"
  show "generate_verilog_cmos_mux_branch_module_structural mgr circuit_lib circuit_model
          module_name mux_graph (module_manager, fp) \<noteq> Inl (AssertionFailed 115)"
  proof
    assume "generate_verilog_cmos_mux_branch_module_structural mgr circuit_lib circuit_model
              module_name mux_graph (module_manager, fp) = Inl (AssertionFailed 115)"
    from generate_structural_Inl_115 [OF this]
    obtain tgate_model tgate_input_ports tgate_output_ports
        input_port output_port mem_port mem_inv_port
        module_manager6 fp2 module_id tgate_module_id where
      "for_each
         (mux_branch_input_step mgr circuit_lib mux_graph tgate_model
            tgate_input_ports tgate_output_ports
            input_port output_port mem_port mem_inv_port module_id tgate_module_id)
         (inputs mux_graph) (module_manager6, fp2) = Inl (AssertionFailed 115)"
      by blast
    moreover from mux_branch_inputs_loop_succeeds [OF inv] obtain s'' where
      "for_each
         (mux_branch_input_step mgr circuit_lib mux_graph tgate_model
            tgate_input_ports tgate_output_ports
            input_port output_port mem_port mem_inv_port module_id tgate_module_id)
         (inputs mux_graph) (module_manager6, fp2) = Inr s''"
      by blast
    ultimately show False by simp
  qed
next
  assume not_gate: "model_type circuit_lib (pass_gate_logic_model circuit_lib circuit_model) \<noteq>
                      SPICE_MODEL_GATE"
    and run: "generate_verilog_cmos_mux_branch_module_structural mgr circuit_lib circuit_model
                module_name mux_graph (module_manager, fp) = Inr s'"
  from generate_structural_Inr [OF run not_gate]
  obtain input_port output_port mem_port mem_inv_port
      module_manager6 fp2 module_id tgate_module_id s'' where loop:
    "for_each
       (mux_branch_input_step mgr circuit_lib mux_graph
          (pass_gate_logic_model circuit_lib circuit_model)
          (model_input_ports circuit_lib (pass_gate_logic_model circuit_lib circuit_model))
          (model_output_ports circuit_lib (pass_gate_logic_model circuit_lib circuit_model))
          input_port output_port mem_port mem_inv_port module_id tgate_module_id)
       (inputs mux_graph) (module_manager6, fp2) = Inr s''"
    by blast
  show "at_most_one_edge mux_graph"
  proof (rule ccontr)
    assume "\<not> at_most_one_edge mux_graph"
    then have "for_each
       (mux_branch_input_step mgr circuit_lib mux_graph
          (pass_gate_logic_model circuit_lib circuit_model)
          (model_input_ports circuit_lib (pass_gate_logic_model circuit_lib circuit_model))
          (model_output_ports circuit_lib (pass_gate_logic_model circuit_lib circuit_model))
          input_port output_port mem_port mem_inv_port module_id tgate_module_id)
       (inputs mux_graph) (module_manager6, fp2) = Inl (AssertionFailed 115)"
      by (rule mux_branch_inputs_loop_fails)
    with loop show False by simp
  qed
next
  assume not_gate: "model_type circuit_lib (pass_gate_logic_model circuit_lib circuit_model) \<noteq>
                      SPICE_MODEL_GATE"
    and broken: "\<not> at_most_one_edge mux_graph"
  show "\<exists>e. generate_verilog_cmos_mux_branch_module_structural mgr circuit_lib circuit_model
              module_name mux_graph (module_manager, fp) = Inl e"
  proof (cases "generate_verilog_cmos_mux_branch_module_structural mgr circuit_lib circuit_model
                  module_name mux_graph (module_manager, fp)")
    case (Inl e)
    then show ?thesis by blast
  next
    case (Inr t)
    from generate_structural_Inr [OF Inr not_gate]
    obtain input_port output_port mem_port mem_inv_port
        module_manager6 fp2 module_id tgate_module_id s'' where
      "for_each
         (mux_branch_input_step mgr circuit_lib mux_graph
            (pass_gate_logic_model circuit_lib circuit_model)
            (model_input_ports circuit_lib (pass_gate_logic_model circuit_lib circuit_model))
            (model_output_ports circuit_lib (pass_gate_logic_model circuit_lib circuit_model))
            input_port output_port mem_port mem_inv_port module_id tgate_module_id)
         (inputs mux_graph) (module_manager6, fp2) = Inr s''"
      by blast
    then show ?thesis by (simp add: mux_branch_inputs_loop_fails [OF broken])
  qed
qed

text \<open>
  The writer succeeds on the four-input example.
\<close>

lemma example_branch_run:
  "\<exists>s'. generate_verilog_cmos_mux_branch_module_structural example_module_manager
          example_circuit_lib 0 ''mux_basis'' example_mux_graph
          ([''tgate''], example_fstream) = Inr s'"
  by (simp add: generate_verilog_cmos_mux_branch_module_structural_def
        mux_branch_input_step_def mux_branch_output_step_def fp_print_def
        example_module_manager_def example_circuit_lib_def example_mux_graph_def
        example_fstream_def)

text \<open>
  The edges found in the example table.
\<close>

lemma example_mux_edges_find_edges:
  "edges_find_edges example_mux_edges 3 4 = [3]
   \<and> edges_find_edges example_mux_edges 4 3 = []"
proof -
  have "edge_list example_mux_edges =
       [\<lparr> edge_src = 0, edge_sink = 4, edge_mem = 0, edge_inv_mem = False \<rparr>,
        \<lparr> edge_src = 1, edge_sink = 4, edge_mem = 1, edge_inv_mem = False \<rparr>,
        \<lparr> edge_src = 2, edge_sink = 4, edge_mem = 2, edge_inv_mem = False \<rparr>,
        \<lparr> edge_src = 3, edge_sink = 4, edge_mem = 3, edge_inv_mem = True \<rparr>]"
    unfolding example_mux_edges_def by (rule MuxEdges_inverse) simp
  then show ?thesis
    by (simp add: edges_find_edges_def upt_rec [of 0] upt_rec [of 1] upt_rec [of 2]
          upt_rec [of 3] upt_rec [of 4])
qed

subsection \<open>The default path (C1)\<close>

text \<open>
  Claim C1.  For every circuit model and implemented size \<open>n\<close>,
  \<open>find_mux_default_path_id\<close> returns \<open>n - 1\<close> when the model has a constant input and the
  first-input index 0 when it has none.  The subtraction is the one of \<open>size_t\<close>; for
  \<open>n \<noteq> 0\<close> the result read as a number is \<open>n - 1\<close>.  When the caller asks for the default
  path, \<open>build_cmos_mux_bitstream\<close> computes it from the implemented multiplexer size
  (the result of \<open>find_mux_implementation_num_inputs\<close>), not from the size the caller
  passed.
\<close>

theorem default_path_id_law:
  "find_mux_default_path_id circuit_lib mux_model n =
     (if mux_add_const_input circuit_lib mux_model then n - 1 else 0)
   \<and> (mux_add_const_input circuit_lib mux_model \<longrightarrow> n \<noteq> 0 \<longrightarrow>
        unat (find_mux_default_path_id circuit_lib mux_model n) = unat n - 1)
   \<and> build_cmos_mux_bitstream impl circuit_lib mux_model mux_lib mux_size DEFAULT_PATH_ID =
       (case mux_lib_mux_graph mux_lib mux_model mux_size of
          Inl e \<Rightarrow> Inl e
        | Inr mux_graph \<Rightarrow>
            cmos_mux_bitstream_of_datapath circuit_lib mux_model mux_graph
              (find_mux_default_path_id circuit_lib mux_model
                 (impl circuit_lib mux_model mux_size)))"
proof (intro conjI impI)
  show "find_mux_default_path_id circuit_lib mux_model n =
          (if mux_add_const_input circuit_lib mux_model then n - 1 else 0)"
    by (simp add: find_mux_default_path_id_def DEFAULT_MUX_PATH_ID_def)
next
  assume "mux_add_const_input circuit_lib mux_model" and "n \<noteq> 0"
  then show "unat (find_mux_default_path_id circuit_lib mux_model n) = unat n - 1"
    by (simp add: find_mux_default_path_id_def unat_minus_one)
next
  show "build_cmos_mux_bitstream impl circuit_lib mux_model mux_lib mux_size DEFAULT_PATH_ID =
       (case mux_lib_mux_graph mux_lib mux_model mux_size of
          Inl e \<Rightarrow> Inl e
        | Inr mux_graph \<Rightarrow>
            cmos_mux_bitstream_of_datapath circuit_lib mux_model mux_graph
              (find_mux_default_path_id circuit_lib mux_model
                 (impl circuit_lib mux_model mux_size)))"
    by (simp add: build_cmos_mux_bitstream_def cmos_mux_datapath_id_def split: sum.splits)
qed

theorem default_path_id_law_witness:
  "mux_add_const_input example_circuit_lib 1 \<and> (4 :: size_t) \<noteq> 0
   \<and> find_mux_default_path_id example_circuit_lib 1 4 = 3
   \<and> unat (find_mux_default_path_id example_circuit_lib 1 4) = 3
   \<and> find_mux_default_path_id example_circuit_lib 0 4 = 0
   \<and> build_cmos_mux_bitstream example_impl example_circuit_lib 1 example_mux_lib 3
        DEFAULT_PATH_ID = Inr [False, False, False, True]"
  using default_path_id_law [of example_circuit_lib 1 4 example_impl example_mux_lib 3]
    default_path_id_law [of example_circuit_lib 0 4 example_impl example_mux_lib 3]
  by (simp add: example_defs mux_lib_mux_graph_def cmos_mux_bitstream_of_datapath_def)

subsection \<open>Round trip of the local encoder (C2)\<close>

text \<open>
  Claim C2.  Take a level of the graph, with the levels \<open>before\<close> it and \<open>after\<close> it.  If
  the level has size at least two and its memories are all unset in the raw bitstream except
  the one at position \<open>p\<close>, the function encodes the level as the binary representation
  of \<open>p\<close> of width \<open>ceil(log2(size))\<close>: these bits, read back as an unsigned binary integer,
  are \<open>p\<close>; the function's result is the result of encoding the levels after it on top of
  the bits of the levels before it followed by these bits, and a bitstream that the
  function returns contains these bits right after the bits of the levels before.  If the
  level has size one, the same holds with the raw bit of its memory in place of the bits.
  The theorem is about the bitstream that \<open>build_cmos_mux_bitstream\<close> returns for a model
  with a local encoder, on a run where the graph is found in the library, the path id is
  accepted and the two assertions on the graph hold; \<open>raw_bitstream\<close> is the bitstream the
  graph decodes, and every memory id of every level lies inside it.
\<close>

theorem local_encoder_round_trip:
  assumes encoder: "mux_use_local_encoder circuit_lib mux_model"
    and graph: "mux_lib_mux_graph mux_lib mux_model mux_size = Inr mux_graph"
    and datapath: "cmos_mux_datapath_id circuit_lib mux_model
                     (impl circuit_lib mux_model mux_size) mux_size path_id = Inr datapath_id"
    and valid_input: "unat datapath_id < length (inputs mux_graph)"
    and one_output: "length (outputs mux_graph) = 1"
    and raw: "raw_bitstream =
                decode_memory_bits mux_graph (unat datapath_id)
                  (output_id mux_graph (outputs mux_graph ! 0))"
    and in_range: "\<forall>l\<in>set (levels mux_graph).
                     \<forall>mem\<in>set (memories_at_level mux_graph l). mem < length raw_bitstream"
    and split: "levels mux_graph = before @ level # after"
    and mems: "mems = memories_at_level mux_graph level"
  shows "(2 \<le> length mems \<longrightarrow> p < length mems \<longrightarrow>
            (\<forall>q<length mems. raw_bitstream ! (mems ! q) = (q = p)) \<longrightarrow>
            (\<exists>bits.
                bits = map (\<lambda>bit. 1 = bit)
                         (itobin_vec p (find_mux_local_decoder_addr_size (length mems)))
              \<and> int (length bits) = \<lceil>log 2 (real (length mems))\<rceil>
              \<and> bin_to_nat bits = p
              \<and> build_cmos_mux_bitstream impl circuit_lib mux_model mux_lib mux_size path_id =
                   (case encode_mux_levels mux_graph raw_bitstream before [] of
                      Inl e \<Rightarrow> Inl e
                    | Inr prefix \<Rightarrow>
                        encode_mux_levels mux_graph raw_bitstream after (prefix @ bits))
                 \<and> (\<forall>mux_bitstream.
                       build_cmos_mux_bitstream impl circuit_lib mux_model mux_lib mux_size path_id = Inr mux_bitstream \<longrightarrow>
                       (\<exists>prefix suffix.
                           encode_mux_levels mux_graph raw_bitstream before [] = Inr prefix \<and>
                           mux_bitstream = prefix @ bits @ suffix))))
       \<and> (length mems = 1 \<longrightarrow>
            build_cmos_mux_bitstream impl circuit_lib mux_model mux_lib mux_size path_id =
              (case encode_mux_levels mux_graph raw_bitstream before [] of
                 Inl e \<Rightarrow> Inl e
               | Inr prefix \<Rightarrow>
                   encode_mux_levels mux_graph raw_bitstream after (prefix @ [raw_bitstream ! (mems ! 0)]))
            \<and> (\<forall>mux_bitstream.
                  build_cmos_mux_bitstream impl circuit_lib mux_model mux_lib mux_size path_id = Inr mux_bitstream \<longrightarrow>
                  (\<exists>prefix suffix.
                      encode_mux_levels mux_graph raw_bitstream before [] = Inr prefix \<and>
                      mux_bitstream = prefix @ [raw_bitstream ! (mems ! 0)] @ suffix)))"
proof -
  let ?w = "find_mux_local_decoder_addr_size (length mems)"
  let ?bits = "map (\<lambda>bit. 1 = bit) (itobin_vec p ?w)"
  {
  assume size: "2 \<le> length mems" and p: "p < length mems"
    and one_hot: "\<forall>q<length mems. raw_bitstream ! (mems ! q) = (q = p)"
  have enc: "encode_mux_level raw_bitstream (memories_at_level mux_graph level) = Inr ?bits"
    using encode_mux_level_one_hot [OF size p one_hot] mems by simp
  have width: "int (length ?bits) = \<lceil>log 2 (real (length mems))\<rceil>"
    using size by (simp add: length_itobin_vec addr_size_ceiling_log2)
  have "p < 2 ^ ?w"
    using p addr_size_covers [of "length mems"] by linarith
  then have "p mod 2 ^ ?w = p" by simp
  then have val: "bin_to_nat ?bits = p"
    by (simp only: bin_to_nat_itobin_vec)
  note level = build_cmos_mux_bitstream_level
                 [where impl = impl, OF encoder graph datapath valid_input one_output raw split enc]
  from width val level(1) level(2)
  have "\<exists>bits.
                bits = map (\<lambda>bit. 1 = bit)
                         (itobin_vec p (find_mux_local_decoder_addr_size (length mems)))
              \<and> int (length bits) = \<lceil>log 2 (real (length mems))\<rceil>
              \<and> bin_to_nat bits = p
              \<and> build_cmos_mux_bitstream impl circuit_lib mux_model mux_lib mux_size path_id =
                   (case encode_mux_levels mux_graph raw_bitstream before [] of
                      Inl e \<Rightarrow> Inl e
                    | Inr prefix \<Rightarrow>
                        encode_mux_levels mux_graph raw_bitstream after (prefix @ bits))
                 \<and> (\<forall>mux_bitstream.
                       build_cmos_mux_bitstream impl circuit_lib mux_model mux_lib mux_size path_id = Inr mux_bitstream \<longrightarrow>
                       (\<exists>prefix suffix.
                           encode_mux_levels mux_graph raw_bitstream before [] = Inr prefix \<and>
                           mux_bitstream = prefix @ bits @ suffix))"
    by blast
  }
  note first = this
  {
  assume "length mems = 1"
  then have enc: "encode_mux_level raw_bitstream (memories_at_level mux_graph level) =
                    Inr [raw_bitstream ! (mems ! 0)]"
    using encode_mux_level_single mems by simp
  note level = build_cmos_mux_bitstream_level
                 [where impl = impl, OF encoder graph datapath valid_input one_output raw split enc]
  from level(1) level(2)
  have "build_cmos_mux_bitstream impl circuit_lib mux_model mux_lib mux_size path_id =
              (case encode_mux_levels mux_graph raw_bitstream before [] of
                 Inl e \<Rightarrow> Inl e
               | Inr prefix \<Rightarrow>
                   encode_mux_levels mux_graph raw_bitstream after (prefix @ [raw_bitstream ! (mems ! 0)]))
            \<and> (\<forall>mux_bitstream.
                  build_cmos_mux_bitstream impl circuit_lib mux_model mux_lib mux_size path_id = Inr mux_bitstream \<longrightarrow>
                  (\<exists>prefix suffix.
                      encode_mux_levels mux_graph raw_bitstream before [] = Inr prefix \<and>
                      mux_bitstream = prefix @ [raw_bitstream ! (mems ! 0)] @ suffix))"
    by blast
  }
  note second = this
  from first second show ?thesis by blast
qed

theorem local_encoder_round_trip_witness:
  "mux_use_local_encoder example_circuit_lib 2
   \<and> mux_lib_mux_graph example_mux_lib 2 4 = Inr example_mux_graph
   \<and> cmos_mux_datapath_id example_circuit_lib 2 (example_impl example_circuit_lib 2 4) 4 2 =
        Inr 2
   \<and> unat (2 :: size_t) < length (inputs example_mux_graph)
   \<and> length (outputs example_mux_graph) = 1
   \<and> [False, False, True, False] =
        decode_memory_bits example_mux_graph (unat (2 :: size_t))
          (output_id example_mux_graph (outputs example_mux_graph ! 0))
   \<and> list_all (\<lambda>l. list_all (\<lambda>mem. mem < length [False, False, True, False]) (memories_at_level example_mux_graph l))
        (levels example_mux_graph)
   \<and> levels example_mux_graph = [] @ 0 # []
   \<and> [0, 1, 2, 3] = memories_at_level example_mux_graph 0
   \<and> 2 \<le> length [0, 1, 2, 3 :: nat] \<and> (2 :: nat) < length [0, 1, 2, 3 :: nat]
   \<and> list_all (\<lambda>q. [False, False, True, False] ! ([0, 1, 2, 3] ! q) = (q = 2))
         [0..<length [0, 1, 2, 3 :: nat]]
   \<and> build_cmos_mux_bitstream example_impl example_circuit_lib 2 example_mux_lib 4 2 =
        Inr [True, False]
   \<and> bin_to_nat [True, False] = 2
   \<and> mux_lib_mux_graph (example_mux_lib_of example_tree_mux_graph) 2 4 =
        Inr example_tree_mux_graph
   \<and> levels example_tree_mux_graph = [0] @ 1 # []
   \<and> [1] = memories_at_level example_tree_mux_graph 1
   \<and> length [1 :: nat] = 1
   \<and> build_cmos_mux_bitstream example_impl example_circuit_lib 2
        (example_mux_lib_of example_tree_mux_graph) 4 2 = Inr [False, True]"
proof -
  have encoder: "mux_use_local_encoder example_circuit_lib 2"
    by (simp add: example_circuit_lib_def)
  have graph: "mux_lib_mux_graph example_mux_lib 2 4 = Inr example_mux_graph"
    by (simp add: mux_lib_mux_graph_def example_mux_lib_def)
  have datapath:
    "cmos_mux_datapath_id example_circuit_lib 2 (example_impl example_circuit_lib 2 4) 4 2 =
       Inr 2"
    by (simp add: cmos_mux_datapath_id_def DEFAULT_PATH_ID_def)
  have valid_input: "unat (2 :: size_t) < length (inputs example_mux_graph)"
    by (simp add: example_mux_graph_def)
  have one_output: "length (outputs example_mux_graph) = 1"
    by (simp add: example_mux_graph_def)
  have raw: "[False, False, True, False] =
               decode_memory_bits example_mux_graph (unat (2 :: size_t))
                 (output_id example_mux_graph (outputs example_mux_graph ! 0))"
    by (simp add: example_mux_graph_def)
  have in_range: "\<forall>l\<in>set (levels example_mux_graph).
                    \<forall>mem\<in>set (memories_at_level example_mux_graph l). mem < length [False, False, True, False]"
    by (simp add: example_mux_graph_def)
  have in_range': "list_all (\<lambda>l. list_all (\<lambda>mem. mem < length [False, False, True, False])
                                 (memories_at_level example_mux_graph l))
                     (levels example_mux_graph)"
    by (simp add: example_mux_graph_def)
  have split: "levels example_mux_graph = [] @ 0 # []"
    by (simp add: example_mux_graph_def)
  have mems: "[0, 1, 2, 3] = memories_at_level example_mux_graph 0"
    by (simp add: example_mux_graph_def)
  have size: "2 \<le> length [0, 1, 2, 3 :: nat]" by simp
  have pos: "(2 :: nat) < length [0, 1, 2, 3 :: nat]" by simp
  have one_hot: "\<forall>q<length [0, 1, 2, 3 :: nat].
                   [False, False, True, False] ! ([0, 1, 2, 3] ! q) = (q = 2)"
    by code_simp
  have one_hot': "list_all (\<lambda>q. [False, False, True, False] ! ([0, 1, 2, 3] ! q) = (q = 2))
                    [0..<length [0, 1, 2, 3 :: nat]]"
    by code_simp
  have code: "map (\<lambda>bit. 1 = bit)
                (itobin_vec 2 (find_mux_local_decoder_addr_size (length [0, 1, 2, 3 :: nat]))) =
              [True, False]"
    by code_simp
  have val: "bin_to_nat [True, False] = 2" by (simp add: bin_to_nat_def)
  have tree_graph: "mux_lib_mux_graph (example_mux_lib_of example_tree_mux_graph) 2 4 =
                      Inr example_tree_mux_graph"
    by (simp add: mux_lib_mux_graph_def example_mux_lib_of_def)
  have tree_input: "unat (2 :: size_t) < length (inputs example_tree_mux_graph)"
    by (simp add: example_tree_mux_graph_def)
  have tree_output: "length (outputs example_tree_mux_graph) = 1"
    by (simp add: example_tree_mux_graph_def)
  have tree_raw: "[False, True] =
                    decode_memory_bits example_tree_mux_graph (unat (2 :: size_t))
                      (output_id example_tree_mux_graph (outputs example_tree_mux_graph ! 0))"
    by (simp add: example_tree_mux_graph_def)
  have tree_range: "\<forall>l\<in>set (levels example_tree_mux_graph).
                      \<forall>mem\<in>set (memories_at_level example_tree_mux_graph l).
                        mem < length [False, True]"
    by (simp add: example_tree_mux_graph_def)
  have tree_split: "levels example_tree_mux_graph = [0] @ 1 # []"
    by (simp add: example_tree_mux_graph_def)
  have tree_mems: "[1] = memories_at_level example_tree_mux_graph 1"
    by (simp add: example_tree_mux_graph_def)
  have tree_single: "length [1 :: nat] = 1" by simp
  have tree_before: "encode_mux_levels example_tree_mux_graph [False, True] [0] [] = Inr [False]"
    by (simp add: example_tree_mux_graph_def encode_mux_level_def)
  from local_encoder_round_trip
         [where impl = example_impl and p = 2,
          OF encoder graph datapath valid_input one_output raw in_range split mems]
    size pos one_hot code
  have first: "build_cmos_mux_bitstream example_impl example_circuit_lib 2 example_mux_lib 4 2 =
                 Inr [True, False]"
    by simp
  from local_encoder_round_trip
         [where impl = example_impl and p = 0,
          OF encoder tree_graph datapath tree_input tree_output tree_raw tree_range
             tree_split tree_mems]
    tree_single tree_before
  have second: "build_cmos_mux_bitstream example_impl example_circuit_lib 2
                  (example_mux_lib_of example_tree_mux_graph) 4 2 = Inr [False, True]"
    by simp
  from encoder graph datapath valid_input one_output raw in_range' split mems size pos
    one_hot' first val tree_graph tree_split tree_mems tree_single second
  show ?thesis by (intro conjI)
qed

subsection \<open>Dispatch on the design technology (C3)\<close>

text \<open>
  Claim C3, as amended.  \<open>build_mux_bitstream\<close> dispatches on the design technology of
  the model: for CMOS the result is the one of \<open>build_cmos_mux_bitstream\<close>; for ReRAM the
  function returns the empty bitstream and reports nothing; for any other tag it stops the
  program.
\<close>

theorem build_mux_bitstream_dispatch:
  "(design_tech_type circuit_lib mux_model = CIRCUIT_MODEL_DESIGN_CMOS \<longrightarrow>
      build_mux_bitstream impl circuit_lib mux_model mux_lib mux_size path_id =
        build_cmos_mux_bitstream impl circuit_lib mux_model mux_lib mux_size path_id)
   \<and> (design_tech_type circuit_lib mux_model = CIRCUIT_MODEL_DESIGN_RRAM \<longrightarrow>
        build_mux_bitstream impl circuit_lib mux_model mux_lib mux_size path_id = Inr [])
   \<and> (design_tech_type circuit_lib mux_model \<noteq> CIRCUIT_MODEL_DESIGN_CMOS \<longrightarrow>
      design_tech_type circuit_lib mux_model \<noteq> CIRCUIT_MODEL_DESIGN_RRAM \<longrightarrow>
        build_mux_bitstream impl circuit_lib mux_model mux_lib mux_size path_id = Inl FatalExit)"
  by (simp add: build_mux_bitstream_def split: e_circuit_model_design_tech.splits)

theorem build_mux_bitstream_dispatch_witness:
  "design_tech_type example_circuit_lib 0 = CIRCUIT_MODEL_DESIGN_CMOS
   \<and> build_mux_bitstream example_impl example_circuit_lib 0 example_mux_lib 4 2 =
       build_cmos_mux_bitstream example_impl example_circuit_lib 0 example_mux_lib 4 2
   \<and> design_tech_type example_circuit_lib 3 = CIRCUIT_MODEL_DESIGN_RRAM
   \<and> build_mux_bitstream example_impl example_circuit_lib 3 example_mux_lib 4 2 = Inr []
   \<and> design_tech_type example_circuit_lib 4 \<noteq> CIRCUIT_MODEL_DESIGN_CMOS
   \<and> design_tech_type example_circuit_lib 4 \<noteq> CIRCUIT_MODEL_DESIGN_RRAM
   \<and> build_mux_bitstream example_impl example_circuit_lib 4 example_mux_lib 4 2 = Inl FatalExit"
proof -
  have cmos: "design_tech_type example_circuit_lib 0 = CIRCUIT_MODEL_DESIGN_CMOS"
    by (simp add: example_circuit_lib_def)
  have rram: "design_tech_type example_circuit_lib 3 = CIRCUIT_MODEL_DESIGN_RRAM"
    by (simp add: example_circuit_lib_def)
  have other: "design_tech_type example_circuit_lib 4 \<noteq> CIRCUIT_MODEL_DESIGN_CMOS"
    "design_tech_type example_circuit_lib 4 \<noteq> CIRCUIT_MODEL_DESIGN_RRAM"
    by (simp_all add: example_circuit_lib_def)
  from build_mux_bitstream_dispatch [of example_circuit_lib 0 example_impl example_mux_lib 4 2]
       build_mux_bitstream_dispatch [of example_circuit_lib 3 example_impl example_mux_lib 4 2]
       build_mux_bitstream_dispatch [of example_circuit_lib 4 example_impl example_mux_lib 4 2]
    cmos rram other
  show ?thesis by blast
qed

text \<open>
  Claim C3 as stated says that a ReRAM model stops the program.  It does not: model 3 of
  the example library is a ReRAM multiplexer and the function returns the empty bitstream.
\<close>

theorem rram_bitstream_is_empty_counterexample:
  "design_tech_type example_circuit_lib 3 = CIRCUIT_MODEL_DESIGN_RRAM
   \<and> build_mux_bitstream example_impl example_circuit_lib 3 example_mux_lib 4 2 = Inr []"
  by (simp add: build_mux_bitstream_def example_circuit_lib_def)

subsection \<open>More than one set bit in a level (C4)\<close>

text \<open>
  Claim C4.  If two different positions \<open>p\<close> and \<open>q\<close> of some level of the graph are set
  in the raw bitstream, the level has size at least two and \<open>build_cmos_mux_bitstream\<close>
  stops with the assertion of line 351: it returns no bitstream, whatever the other levels
  are.
  The theorem is about the bitstream that \<open>build_cmos_mux_bitstream\<close> returns for a model
  with a local encoder, on a run where the graph is found in the library, the path id is
  accepted and the two assertions on the graph hold; \<open>raw_bitstream\<close> is the bitstream the
  graph decodes, and every memory id of every level lies inside it.
\<close>

theorem local_encoder_rejects_multiple_set_bits:
  assumes encoder: "mux_use_local_encoder circuit_lib mux_model"
    and graph: "mux_lib_mux_graph mux_lib mux_model mux_size = Inr mux_graph"
    and datapath: "cmos_mux_datapath_id circuit_lib mux_model
                     (impl circuit_lib mux_model mux_size) mux_size path_id = Inr datapath_id"
    and valid_input: "unat datapath_id < length (inputs mux_graph)"
    and one_output: "length (outputs mux_graph) = 1"
    and raw: "raw_bitstream =
                decode_memory_bits mux_graph (unat datapath_id)
                  (output_id mux_graph (outputs mux_graph ! 0))"
    and in_range: "\<forall>l\<in>set (levels mux_graph).
                     \<forall>mem\<in>set (memories_at_level mux_graph l). mem < length raw_bitstream"
    and level: "level \<in> set (levels mux_graph)"
    and mems: "mems = memories_at_level mux_graph level"
    and p: "p < length mems" and q: "q < length mems" and distinct: "p \<noteq> q"
    and bit_p: "raw_bitstream ! (mems ! p)" and bit_q: "raw_bitstream ! (mems ! q)"
  shows "2 \<le> length mems
       \<and> build_cmos_mux_bitstream impl circuit_lib mux_model mux_lib mux_size path_id = Inl (AssertionFailed 351)"
proof -
  from p q distinct have size: "2 \<le> length mems" by linarith
  have "encode_mux_level raw_bitstream (memories_at_level mux_graph level) =
          Inl (AssertionFailed 351)"
    using encode_mux_level_two_hot [OF p q distinct bit_p bit_q] mems by simp
  with level
  have "encode_mux_levels mux_graph raw_bitstream (levels mux_graph) [] =
          Inl (AssertionFailed 351)"
    by (rule encode_mux_levels_fails)
  with build_cmos_mux_bitstream_local_encoder
         [where impl = impl, OF encoder graph datapath valid_input one_output] raw
  have "build_cmos_mux_bitstream impl circuit_lib mux_model mux_lib mux_size path_id = Inl (AssertionFailed 351)"
    by simp
  with size show ?thesis by blast
qed

theorem local_encoder_rejects_multiple_set_bits_witness:
  "mux_use_local_encoder example_circuit_lib 2
   \<and> mux_lib_mux_graph (example_mux_lib_of example_two_hot_mux_graph) 2 4 = Inr example_two_hot_mux_graph
   \<and> cmos_mux_datapath_id example_circuit_lib 2 (example_impl example_circuit_lib 2 4) 4 2 =
        Inr 2
   \<and> unat (2 :: size_t) < length (inputs example_two_hot_mux_graph)
   \<and> length (outputs example_two_hot_mux_graph) = 1
   \<and> [True, False, True, False] =
        decode_memory_bits example_two_hot_mux_graph (unat (2 :: size_t))
          (output_id example_two_hot_mux_graph (outputs example_two_hot_mux_graph ! 0))
   \<and> list_all (\<lambda>l. list_all (\<lambda>mem. mem < length [True, False, True, False]) (memories_at_level example_two_hot_mux_graph l))
        (levels example_two_hot_mux_graph)
   \<and> (0 :: nat) \<in> set (levels example_two_hot_mux_graph)
   \<and> [0, 1, 2, 3] = memories_at_level example_two_hot_mux_graph 0
   \<and> (0 :: nat) < length [0, 1, 2, 3 :: nat] \<and> (2 :: nat) < length [0, 1, 2, 3 :: nat]
   \<and> (0 :: nat) \<noteq> 2
   \<and> [True, False, True, False] ! ([0, 1, 2, 3] ! 0)
   \<and> [True, False, True, False] ! ([0, 1, 2, 3] ! 2)
   \<and> build_cmos_mux_bitstream example_impl example_circuit_lib 2
        (example_mux_lib_of example_two_hot_mux_graph) 4 2 = Inl (AssertionFailed 351)"
proof -
  have encoder: "mux_use_local_encoder example_circuit_lib 2"
    by (simp add: example_circuit_lib_def)
  have graph: "mux_lib_mux_graph (example_mux_lib_of example_two_hot_mux_graph) 2 4 = Inr example_two_hot_mux_graph"
    by (simp add: mux_lib_mux_graph_def example_mux_lib_of_def)
  have datapath:
    "cmos_mux_datapath_id example_circuit_lib 2 (example_impl example_circuit_lib 2 4) 4 2 =
       Inr 2"
    by (simp add: cmos_mux_datapath_id_def DEFAULT_PATH_ID_def)
  have valid_input: "unat (2 :: size_t) < length (inputs example_two_hot_mux_graph)"
    by (simp add: example_two_hot_mux_graph_def example_mux_graph_def)
  have one_output: "length (outputs example_two_hot_mux_graph) = 1"
    by (simp add: example_two_hot_mux_graph_def example_mux_graph_def)
  have raw: "[True, False, True, False] =
               decode_memory_bits example_two_hot_mux_graph (unat (2 :: size_t))
                 (output_id example_two_hot_mux_graph (outputs example_two_hot_mux_graph ! 0))"
    by (simp add: example_two_hot_mux_graph_def example_mux_graph_def)
  have in_range: "\<forall>l\<in>set (levels example_two_hot_mux_graph).
                    \<forall>mem\<in>set (memories_at_level example_two_hot_mux_graph l). mem < length [True, False, True, False]"
    by (simp add: example_two_hot_mux_graph_def example_mux_graph_def)
  have in_range': "list_all (\<lambda>l. list_all (\<lambda>mem. mem < length [True, False, True, False])
                                 (memories_at_level example_two_hot_mux_graph l))
                     (levels example_two_hot_mux_graph)"
    by (simp add: example_two_hot_mux_graph_def example_mux_graph_def)
  have level: "(0 :: nat) \<in> set (levels example_two_hot_mux_graph)"
    by (simp add: example_two_hot_mux_graph_def example_mux_graph_def)
  have mems: "[0, 1, 2, 3] = memories_at_level example_two_hot_mux_graph 0"
    by (simp add: example_two_hot_mux_graph_def example_mux_graph_def)
  have p: "(0 :: nat) < length [0, 1, 2, 3 :: nat]" by simp
  have q: "(2 :: nat) < length [0, 1, 2, 3 :: nat]" by simp
  have pq: "(0 :: nat) \<noteq> 2" by simp
  have bit_p: "[True, False, True, False] ! ([0, 1, 2, 3] ! 0)" by simp
  have bit_q: "[True, False, True, False] ! ([0, 1, 2, 3] ! 2)" by simp
  from local_encoder_rejects_multiple_set_bits
         [where impl = example_impl,
          OF encoder graph datapath valid_input one_output raw in_range level mems
             p q pq bit_p bit_q]
  have "build_cmos_mux_bitstream example_impl example_circuit_lib 2
          (example_mux_lib_of example_two_hot_mux_graph) 4 2 = Inl (AssertionFailed 351)"
    by simp
  with encoder graph datapath valid_input one_output raw in_range' level mems p q pq bit_p bit_q
  show ?thesis by (intro conjI)
qed

subsection \<open>Explicit path ids (C5)\<close>



subsection \<open>Models without a local encoder (C6)\<close>

text \<open>
  Claim C6.  For a model that does not use a local encoder,
  \<open>build_cmos_mux_bitstream\<close> returns the bitstream decoded by the graph as it is: whenever
  the graph is found, the path id is accepted and the two assertions on the graph hold, the
  result is exactly the decoded bitstream, and every bitstream the function returns arises
  in this way.
\<close>

theorem raw_bitstream_without_local_encoder:
  assumes "mux_use_local_encoder circuit_lib mux_model = False"
  shows "(mux_lib_mux_graph mux_lib mux_model mux_size = Inr mux_graph \<longrightarrow>
          cmos_mux_datapath_id circuit_lib mux_model (impl circuit_lib mux_model mux_size)
            mux_size path_id = Inr datapath_id \<longrightarrow>
          unat datapath_id < length (inputs mux_graph) \<longrightarrow>
          length (outputs mux_graph) = 1 \<longrightarrow>
          build_cmos_mux_bitstream impl circuit_lib mux_model mux_lib mux_size path_id =
            Inr (decode_memory_bits mux_graph (unat datapath_id)
                   (output_id mux_graph (outputs mux_graph ! 0))))
       \<and> (build_cmos_mux_bitstream impl circuit_lib mux_model mux_lib mux_size path_id =
            Inr mux_bitstream \<longrightarrow>
          (\<exists>mux_graph datapath_id.
              mux_lib_mux_graph mux_lib mux_model mux_size = Inr mux_graph \<and>
              cmos_mux_datapath_id circuit_lib mux_model (impl circuit_lib mux_model mux_size)
                mux_size path_id = Inr datapath_id \<and>
              mux_bitstream =
                decode_memory_bits mux_graph (unat datapath_id)
                  (output_id mux_graph (outputs mux_graph ! 0))))"
  using assms
  by (auto simp add: build_cmos_mux_bitstream_def cmos_mux_bitstream_of_datapath_def
      split: sum.splits if_splits)

theorem raw_bitstream_without_local_encoder_witness:
  "mux_use_local_encoder example_circuit_lib 0 = False
   \<and> mux_lib_mux_graph example_mux_lib 0 4 = Inr example_mux_graph
   \<and> cmos_mux_datapath_id example_circuit_lib 0 (example_impl example_circuit_lib 0 4) 4 2 =
        Inr 2
   \<and> unat (2 :: size_t) < length (inputs example_mux_graph)
   \<and> length (outputs example_mux_graph) = 1
   \<and> build_cmos_mux_bitstream example_impl example_circuit_lib 0 example_mux_lib 4 2 =
        Inr [False, False, True, False]"
proof -
  have no_encoder: "mux_use_local_encoder example_circuit_lib 0 = False"
    by (simp add: example_circuit_lib_def)
  have graph: "mux_lib_mux_graph example_mux_lib 0 4 = Inr example_mux_graph"
    by (simp add: mux_lib_mux_graph_def example_mux_lib_def)
  have datapath:
    "cmos_mux_datapath_id example_circuit_lib 0 (example_impl example_circuit_lib 0 4) 4 2 =
       Inr 2"
    by (simp add: cmos_mux_datapath_id_def DEFAULT_PATH_ID_def)
  have valid_input: "unat (2 :: size_t) < length (inputs example_mux_graph)"
    by (simp add: example_mux_graph_def)
  have one_output: "length (outputs example_mux_graph) = 1"
    by (simp add: example_mux_graph_def)
  have decoded: "decode_memory_bits example_mux_graph (unat (2 :: size_t))
                   (output_id example_mux_graph (outputs example_mux_graph ! 0)) =
                 [False, False, True, False]"
    by (simp add: example_mux_graph_def)
  from raw_bitstream_without_local_encoder
         [of example_circuit_lib 0 example_mux_lib 4 example_mux_graph example_impl 2 2
            "[False, False, True, False]", OF no_encoder]
    no_encoder graph datapath valid_input one_output decoded
  show ?thesis by simp
qed

subsection \<open>Levels with one memory (C7)\<close>

text \<open>
  Claim C7.  Take a level of the graph with exactly one memory, with the levels \<open>before\<close>
  it and \<open>after\<close> it.  The function's result is the result of encoding the levels after it
  on top of the bits of the levels before it followed by the raw bit of that memory, and a
  bitstream that the function returns contains exactly this one bit for the level, right
  after the bits of the levels before.
  The theorem is about the bitstream that \<open>build_cmos_mux_bitstream\<close> returns for a model
  with a local encoder, on a run where the graph is found in the library, the path id is
  accepted and the two assertions on the graph hold; \<open>raw_bitstream\<close> is the bitstream the
  graph decodes, and every memory id of every level lies inside it.
\<close>

theorem single_memory_level_passthrough:
  assumes encoder: "mux_use_local_encoder circuit_lib mux_model"
    and graph: "mux_lib_mux_graph mux_lib mux_model mux_size = Inr mux_graph"
    and datapath: "cmos_mux_datapath_id circuit_lib mux_model
                     (impl circuit_lib mux_model mux_size) mux_size path_id = Inr datapath_id"
    and valid_input: "unat datapath_id < length (inputs mux_graph)"
    and one_output: "length (outputs mux_graph) = 1"
    and raw: "raw_bitstream =
                decode_memory_bits mux_graph (unat datapath_id)
                  (output_id mux_graph (outputs mux_graph ! 0))"
    and in_range: "\<forall>l\<in>set (levels mux_graph).
                     \<forall>mem\<in>set (memories_at_level mux_graph l). mem < length raw_bitstream"
    and split: "levels mux_graph = before @ level # after"
    and single: "memories_at_level mux_graph level = [mem]"
  shows "build_cmos_mux_bitstream impl circuit_lib mux_model mux_lib mux_size path_id =
           (case encode_mux_levels mux_graph raw_bitstream before [] of
              Inl e \<Rightarrow> Inl e
            | Inr prefix \<Rightarrow>
                encode_mux_levels mux_graph raw_bitstream after (prefix @ [raw_bitstream ! mem]))
         \<and> (\<forall>mux_bitstream.
               build_cmos_mux_bitstream impl circuit_lib mux_model mux_lib mux_size path_id = Inr mux_bitstream \<longrightarrow>
               (\<exists>prefix suffix.
                   encode_mux_levels mux_graph raw_bitstream before [] = Inr prefix \<and>
                   mux_bitstream = prefix @ [raw_bitstream ! mem] @ suffix))"
proof -
  have enc: "encode_mux_level raw_bitstream (memories_at_level mux_graph level) =
               Inr [raw_bitstream ! mem]"
    using single by (simp add: encode_mux_level_def)
  note level = build_cmos_mux_bitstream_level
                 [where impl = impl, OF encoder graph datapath valid_input one_output raw split enc]
  from level(1) level(2) show ?thesis by blast
qed

theorem single_memory_level_passthrough_witness:
  "mux_use_local_encoder example_circuit_lib 2
   \<and> mux_lib_mux_graph (example_mux_lib_of example_tree_mux_graph) 2 4 = Inr example_tree_mux_graph
   \<and> cmos_mux_datapath_id example_circuit_lib 2 (example_impl example_circuit_lib 2 4) 4 1 =
        Inr 1
   \<and> unat (1 :: size_t) < length (inputs example_tree_mux_graph)
   \<and> length (outputs example_tree_mux_graph) = 1
   \<and> [True, False] =
        decode_memory_bits example_tree_mux_graph (unat (1 :: size_t))
          (output_id example_tree_mux_graph (outputs example_tree_mux_graph ! 0))
   \<and> list_all (\<lambda>l. list_all (\<lambda>mem. mem < length [True, False]) (memories_at_level example_tree_mux_graph l))
        (levels example_tree_mux_graph)
   \<and> levels example_tree_mux_graph = [0] @ 1 # []
   \<and> memories_at_level example_tree_mux_graph 1 = [1]
   \<and> build_cmos_mux_bitstream example_impl example_circuit_lib 2
        (example_mux_lib_of example_tree_mux_graph) 4 1 = Inr [True, False]"
proof -
  have encoder: "mux_use_local_encoder example_circuit_lib 2"
    by (simp add: example_circuit_lib_def)
  have graph: "mux_lib_mux_graph (example_mux_lib_of example_tree_mux_graph) 2 4 = Inr example_tree_mux_graph"
    by (simp add: mux_lib_mux_graph_def example_mux_lib_of_def)
  have datapath:
    "cmos_mux_datapath_id example_circuit_lib 2 (example_impl example_circuit_lib 2 4) 4 1 =
       Inr 1"
    by (simp add: cmos_mux_datapath_id_def DEFAULT_PATH_ID_def)
  have valid_input: "unat (1 :: size_t) < length (inputs example_tree_mux_graph)"
    by (simp add: example_tree_mux_graph_def)
  have one_output: "length (outputs example_tree_mux_graph) = 1"
    by (simp add: example_tree_mux_graph_def)
  have raw: "[True, False] =
               decode_memory_bits example_tree_mux_graph (unat (1 :: size_t))
                 (output_id example_tree_mux_graph (outputs example_tree_mux_graph ! 0))"
    by (simp add: example_tree_mux_graph_def)
  have in_range: "\<forall>l\<in>set (levels example_tree_mux_graph).
                    \<forall>mem\<in>set (memories_at_level example_tree_mux_graph l). mem < length [True, False]"
    by (simp add: example_tree_mux_graph_def)
  have in_range': "list_all (\<lambda>l. list_all (\<lambda>mem. mem < length [True, False])
                                 (memories_at_level example_tree_mux_graph l))
                     (levels example_tree_mux_graph)"
    by (simp add: example_tree_mux_graph_def)
  have split: "levels example_tree_mux_graph = [0] @ 1 # []"
    by (simp add: example_tree_mux_graph_def)
  have single: "memories_at_level example_tree_mux_graph 1 = [1]"
    by (simp add: example_tree_mux_graph_def)
  have before: "encode_mux_levels example_tree_mux_graph [True, False] [0] [] = Inr [True]"
    by (simp add: example_tree_mux_graph_def encode_mux_level_def)
  from single_memory_level_passthrough
         [where impl = example_impl,
          OF encoder graph datapath valid_input one_output raw in_range split single]
    before
  have "build_cmos_mux_bitstream example_impl example_circuit_lib 2
          (example_mux_lib_of example_tree_mux_graph) 4 1 = Inr [True, False]"
    by simp
  with encoder graph datapath valid_input one_output raw in_range' split single
  show ?thesis by (intro conjI)
qed

subsection \<open>Levels with no set bit (C8)\<close>

text \<open>
  Claim C8.  Take a level of the graph of size at least two none of whose memories is set
  in the raw bitstream, with the levels \<open>before\<close> it and \<open>after\<close> it.  The level does not make
  the function fail: the function's result is the result of encoding the levels after it on
  top of the bits of the levels before it followed by the address 0 of the level, that is
  \<open>ceil(log2(size))\<close> bits that are all false, and a bitstream that the function returns
  contains these bits right after the bits of the levels before.
  The theorem is about the bitstream that \<open>build_cmos_mux_bitstream\<close> returns for a model
  with a local encoder, on a run where the graph is found in the library, the path id is
  accepted and the two assertions on the graph hold; \<open>raw_bitstream\<close> is the bitstream the
  graph decodes, and every memory id of every level lies inside it.
\<close>

theorem unset_level_encodes_address_zero:
  assumes encoder: "mux_use_local_encoder circuit_lib mux_model"
    and graph: "mux_lib_mux_graph mux_lib mux_model mux_size = Inr mux_graph"
    and datapath: "cmos_mux_datapath_id circuit_lib mux_model
                     (impl circuit_lib mux_model mux_size) mux_size path_id = Inr datapath_id"
    and valid_input: "unat datapath_id < length (inputs mux_graph)"
    and one_output: "length (outputs mux_graph) = 1"
    and raw: "raw_bitstream =
                decode_memory_bits mux_graph (unat datapath_id)
                  (output_id mux_graph (outputs mux_graph ! 0))"
    and in_range: "\<forall>l\<in>set (levels mux_graph).
                     \<forall>mem\<in>set (memories_at_level mux_graph l). mem < length raw_bitstream"
    and split: "levels mux_graph = before @ level # after"
    and mems: "mems = memories_at_level mux_graph level"
    and size: "2 \<le> length mems"
    and unset: "\<forall>q<length mems. \<not> raw_bitstream ! (mems ! q)"
  shows "map (\<lambda>bit. 1 = bit) (itobin_vec 0 (find_mux_local_decoder_addr_size (length mems))) =
           replicate (find_mux_local_decoder_addr_size (length mems)) False
       \<and> int (find_mux_local_decoder_addr_size (length mems)) = \<lceil>log 2 (real (length mems))\<rceil>
       \<and> build_cmos_mux_bitstream impl circuit_lib mux_model mux_lib mux_size path_id =
           (case encode_mux_levels mux_graph raw_bitstream before [] of
              Inl e \<Rightarrow> Inl e
            | Inr prefix \<Rightarrow>
                encode_mux_levels mux_graph raw_bitstream after (prefix @ replicate (find_mux_local_decoder_addr_size (length mems)) False))
         \<and> (\<forall>mux_bitstream.
               build_cmos_mux_bitstream impl circuit_lib mux_model mux_lib mux_size path_id = Inr mux_bitstream \<longrightarrow>
               (\<exists>prefix suffix.
                   encode_mux_levels mux_graph raw_bitstream before [] = Inr prefix \<and>
                   mux_bitstream = prefix @ replicate (find_mux_local_decoder_addr_size (length mems)) False @ suffix))"
proof -
  have zero: "map (\<lambda>bit. 1 = bit)
                (itobin_vec 0 (find_mux_local_decoder_addr_size (length mems))) =
              replicate (find_mux_local_decoder_addr_size (length mems)) False"
    by (simp add: itobin_vec_zero)
  have width: "int (find_mux_local_decoder_addr_size (length mems)) =
                 \<lceil>log 2 (real (length mems))\<rceil>"
    using size by (simp add: addr_size_ceiling_log2)
  have enc: "encode_mux_level raw_bitstream (memories_at_level mux_graph level) =
               Inr (replicate (find_mux_local_decoder_addr_size (length mems)) False)"
    using encode_mux_level_unset [OF size unset] mems by simp
  note level = build_cmos_mux_bitstream_level
                 [where impl = impl, OF encoder graph datapath valid_input one_output raw split enc]
  from zero width level(1) level(2) show ?thesis by blast
qed

theorem unset_level_encodes_address_zero_witness:
  "mux_use_local_encoder example_circuit_lib 2
   \<and> mux_lib_mux_graph (example_mux_lib_of example_unset_mux_graph) 2 4 = Inr example_unset_mux_graph
   \<and> cmos_mux_datapath_id example_circuit_lib 2 (example_impl example_circuit_lib 2 4) 4 2 =
        Inr 2
   \<and> unat (2 :: size_t) < length (inputs example_unset_mux_graph)
   \<and> length (outputs example_unset_mux_graph) = 1
   \<and> [False, False, False, False] =
        decode_memory_bits example_unset_mux_graph (unat (2 :: size_t))
          (output_id example_unset_mux_graph (outputs example_unset_mux_graph ! 0))
   \<and> list_all (\<lambda>l. list_all (\<lambda>mem. mem < length [False, False, False, False]) (memories_at_level example_unset_mux_graph l))
        (levels example_unset_mux_graph)
   \<and> levels example_unset_mux_graph = [] @ 0 # []
   \<and> [0, 1, 2, 3] = memories_at_level example_unset_mux_graph 0
   \<and> 2 \<le> length [0, 1, 2, 3 :: nat]
   \<and> list_all (\<lambda>q. \<not> [False, False, False, False] ! ([0, 1, 2, 3] ! q))
         [0..<length [0, 1, 2, 3 :: nat]]
   \<and> find_mux_local_decoder_addr_size (length [0, 1, 2, 3 :: nat]) = 2
   \<and> build_cmos_mux_bitstream example_impl example_circuit_lib 2
        (example_mux_lib_of example_unset_mux_graph) 4 2 = Inr [False, False]"
proof -
  have encoder: "mux_use_local_encoder example_circuit_lib 2"
    by (simp add: example_circuit_lib_def)
  have graph: "mux_lib_mux_graph (example_mux_lib_of example_unset_mux_graph) 2 4 = Inr example_unset_mux_graph"
    by (simp add: mux_lib_mux_graph_def example_mux_lib_of_def)
  have datapath:
    "cmos_mux_datapath_id example_circuit_lib 2 (example_impl example_circuit_lib 2 4) 4 2 =
       Inr 2"
    by (simp add: cmos_mux_datapath_id_def DEFAULT_PATH_ID_def)
  have valid_input: "unat (2 :: size_t) < length (inputs example_unset_mux_graph)"
    by (simp add: example_unset_mux_graph_def example_mux_graph_def)
  have one_output: "length (outputs example_unset_mux_graph) = 1"
    by (simp add: example_unset_mux_graph_def example_mux_graph_def)
  have raw: "[False, False, False, False] =
               decode_memory_bits example_unset_mux_graph (unat (2 :: size_t))
                 (output_id example_unset_mux_graph (outputs example_unset_mux_graph ! 0))"
    by (simp add: example_unset_mux_graph_def example_mux_graph_def)
  have in_range: "\<forall>l\<in>set (levels example_unset_mux_graph).
                    \<forall>mem\<in>set (memories_at_level example_unset_mux_graph l). mem < length [False, False, False, False]"
    by (simp add: example_unset_mux_graph_def example_mux_graph_def)
  have in_range': "list_all (\<lambda>l. list_all (\<lambda>mem. mem < length [False, False, False, False])
                                 (memories_at_level example_unset_mux_graph l))
                     (levels example_unset_mux_graph)"
    by (simp add: example_unset_mux_graph_def example_mux_graph_def)
  have split: "levels example_unset_mux_graph = [] @ 0 # []"
    by (simp add: example_unset_mux_graph_def example_mux_graph_def)
  have mems: "[0, 1, 2, 3] = memories_at_level example_unset_mux_graph 0"
    by (simp add: example_unset_mux_graph_def example_mux_graph_def)
  have size: "2 \<le> length [0, 1, 2, 3 :: nat]" by simp
  have unset: "\<forall>q<length [0, 1, 2, 3 :: nat].
                 \<not> [False, False, False, False] ! ([0, 1, 2, 3] ! q)"
    by code_simp
  have unset': "list_all (\<lambda>q. \<not> [False, False, False, False] ! ([0, 1, 2, 3] ! q))
                  [0..<length [0, 1, 2, 3 :: nat]]"
    by code_simp
  have width: "find_mux_local_decoder_addr_size (length [0, 1, 2, 3 :: nat]) = 2"
    by code_simp
  have zeros: "replicate (2 :: nat) False = [False, False]"
    by (simp add: numeral_2_eq_2)
  from unset_level_encodes_address_zero
         [where impl = example_impl,
          OF encoder graph datapath valid_input one_output raw in_range split mems size unset]
    width zeros
  have "build_cmos_mux_bitstream example_impl example_circuit_lib 2
          (example_mux_lib_of example_unset_mux_graph) 4 2 = Inr [False, False]"
    by simp
  with encoder graph datapath valid_input one_output raw in_range' split mems size unset' width
  show ?thesis by (intro conjI)
qed

subsection \<open>At most one edge between an input and an output (C9)\<close>

text \<open>
  Claim C9.  A multiplexer graph holds a table of edges in which no two edges connect the
  same input to the same output (\<open>MuxEdges\<close>), so between any input and any output of a
  graph that reads its edges from its table there is at most one edge, and on such a graph
  the assertion of line 115 of the structural Verilog writer never fails.  The writer
  relies on the invariant by asserting it on every pair it visits: on any graph with the
  invariant the assertion never fails; unless the pass gate is a MUX2 gate, for which the
  writer returns at once, the writer returns a result only if every pair of an input and an
  output has zero or one edge, and it stops without a result on a graph that breaks the
  invariant.
\<close>

theorem edge_assertion_enforces_single_edge:
  "at_most_one_edge (mux_graph_with_edges base_graph edges)
   \<and> generate_verilog_cmos_mux_branch_module_structural mgr circuit_lib circuit_model
        module_name (mux_graph_with_edges base_graph edges) (module_manager, fp) \<noteq>
      Inl (AssertionFailed 115)
   \<and> (at_most_one_edge mux_graph \<longrightarrow>
        generate_verilog_cmos_mux_branch_module_structural mgr circuit_lib circuit_model
          module_name mux_graph (module_manager, fp) \<noteq> Inl (AssertionFailed 115))
   \<and> (model_type circuit_lib (pass_gate_logic_model circuit_lib circuit_model) \<noteq>
         SPICE_MODEL_GATE \<longrightarrow>
       generate_verilog_cmos_mux_branch_module_structural mgr circuit_lib circuit_model
         module_name mux_graph (module_manager, fp) = Inr s' \<longrightarrow>
       at_most_one_edge mux_graph)
   \<and> (model_type circuit_lib (pass_gate_logic_model circuit_lib circuit_model) \<noteq>
         SPICE_MODEL_GATE \<longrightarrow>
       \<not> at_most_one_edge mux_graph \<longrightarrow>
       (\<exists>e. generate_verilog_cmos_mux_branch_module_structural mgr circuit_lib circuit_model
              module_name mux_graph (module_manager, fp) = Inl e))"
proof -
  have invariant: "at_most_one_edge (mux_graph_with_edges base_graph edges)"
    by (rule at_most_one_edge_with_edges)
  from writer_edge_assertion
         [of "mux_graph_with_edges base_graph edges" mgr circuit_lib circuit_model
            "module_name" module_manager fp s'] invariant
  have never: "generate_verilog_cmos_mux_branch_module_structural mgr circuit_lib circuit_model
        module_name (mux_graph_with_edges base_graph edges) (module_manager, fp) \<noteq>
      Inl (AssertionFailed 115)"
    by blast
  from invariant never
    writer_edge_assertion
      [of mux_graph mgr circuit_lib circuit_model "module_name" module_manager fp s']
  show ?thesis by blast
qed

theorem edge_assertion_enforces_single_edge_witness:
  "at_most_one_edge (mux_graph_with_edges example_mux_graph example_mux_edges)
   \<and> find_edges (mux_graph_with_edges example_mux_graph example_mux_edges) 3 4 = [3]
   \<and> generate_verilog_cmos_mux_branch_module_structural example_module_manager
        example_circuit_lib 0 ''mux_basis''
        (mux_graph_with_edges example_mux_graph example_mux_edges)
        ([''tgate''], example_fstream) \<noteq> Inl (AssertionFailed 115)
   \<and> at_most_one_edge example_mux_graph
   \<and> generate_verilog_cmos_mux_branch_module_structural example_module_manager
        example_circuit_lib 0 ''mux_basis'' example_mux_graph
        ([''tgate''], example_fstream) \<noteq> Inl (AssertionFailed 115)
   \<and> model_type example_circuit_lib (pass_gate_logic_model example_circuit_lib 0) \<noteq>
        SPICE_MODEL_GATE
   \<and> (\<exists>s'. generate_verilog_cmos_mux_branch_module_structural example_module_manager
              example_circuit_lib 0 ''mux_basis'' example_mux_graph
              ([''tgate''], example_fstream) = Inr s')
   \<and> \<not> at_most_one_edge example_double_edge_graph
   \<and> (\<exists>e. generate_verilog_cmos_mux_branch_module_structural example_module_manager
              example_circuit_lib 0 ''mux_basis'' example_double_edge_graph
              ([''tgate''], example_fstream) = Inl e)"
proof -
  have single: "at_most_one_edge example_mux_graph"
    by (simp add: at_most_one_edge_def example_mux_graph_def)
  have double: "\<not> at_most_one_edge example_double_edge_graph"
    by (simp add: at_most_one_edge_def example_double_edge_graph_def example_mux_graph_def)
  have not_gate: "model_type example_circuit_lib (pass_gate_logic_model example_circuit_lib 0) \<noteq>
                    SPICE_MODEL_GATE"
    by (simp add: example_circuit_lib_def)
  have found: "find_edges (mux_graph_with_edges example_mux_graph example_mux_edges) 3 4 = [3]"
    using example_mux_edges_find_edges by (simp add: mux_graph_with_edges_def)
  from example_branch_run obtain s' where
    run: "generate_verilog_cmos_mux_branch_module_structural example_module_manager
            example_circuit_lib 0 ''mux_basis'' example_mux_graph
            ([''tgate''], example_fstream) = Inr s'"
    by blast
  from edge_assertion_enforces_single_edge
         [of example_mux_graph example_mux_edges example_module_manager example_circuit_lib 0
            "''mux_basis''" "[''tgate'']" example_fstream example_mux_graph s']
       edge_assertion_enforces_single_edge
         [of example_mux_graph example_mux_edges example_module_manager example_circuit_lib 0
            "''mux_basis''" "[''tgate'']" example_fstream example_double_edge_graph s']
    single double not_gate run found
  show ?thesis by blast
qed

subsection \<open>The memory ports of a pass gate (C10)\<close>

text \<open>
  Claim C10.  For the edge of a pair of an input and an output, with controlling memory
  \<open>m\<close>, the writer prints an instance of the pass gate whose port map is built by four
  assignments in this order: first input port to \<open>in[input]\<close>, output port to
  \<open>out[output]\<close>, second input port to \<open>mem[m]\<close> and third input port to
  \<open>mem_inv[m]\<close> when the edge does not use the inverted memory, and second input port to
  \<open>mem_inv[m]\<close> and third input port to \<open>mem[m]\<close> when it does.  The map is keyed
  by the library names of the ports: the third input port is always connected as stated,
  and so is the second one when its name differs from the name of the third.
\<close>

theorem tgate_memory_ports_follow_edge_polarity:
  assumes run: "generate_verilog_cmos_mux_branch_module_structural mgr circuit_lib circuit_model
                  module_name mux_graph (module_manager, fp) = Inr s'"
    and not_gate: "model_type circuit_lib (pass_gate_logic_model circuit_lib circuit_model) \<noteq>
                     SPICE_MODEL_GATE"
    and mux_input: "mux_input \<in> set (inputs mux_graph)"
    and mux_output: "mux_output \<in> set (outputs mux_graph)"
    and edge: "find_edges mux_graph mux_input mux_output = [edge]"
  shows "\<exists>mm module_id tgate_module_id port2port_name_map.
           Print_verilog_module_instance mm module_id tgate_module_id port2port_name_map
             (dump_explicit_port_map circuit_lib (pass_gate_logic_model circuit_lib circuit_model))
             \<in> set (fp_out (snd s'))
         \<and> port2port_name_map =
             (((Map.empty
                 (port_lib_name circuit_lib
                    (model_input_ports circuit_lib
                       (pass_gate_logic_model circuit_lib circuit_model) ! 0) \<mapsto>
                  BasicPort_lsb_msb ''in''
                    (input_id mux_graph mux_input) (input_id mux_graph mux_input)))
                 (port_lib_name circuit_lib
                    (model_output_ports circuit_lib
                       (pass_gate_logic_model circuit_lib circuit_model) ! 0) \<mapsto>
                  BasicPort_lsb_msb ''out''
                    (output_id mux_graph mux_output) (output_id mux_graph mux_output)))
                 (port_lib_name circuit_lib
                    (model_input_ports circuit_lib
                       (pass_gate_logic_model circuit_lib circuit_model) ! 1) \<mapsto>
                  BasicPort_lsb_msb
                    (if is_edge_use_inv_mem mux_graph edge then ''mem_inv'' else ''mem'')
                    (find_edge_mem mux_graph edge) (find_edge_mem mux_graph edge)))
                 (port_lib_name circuit_lib
                    (model_input_ports circuit_lib
                       (pass_gate_logic_model circuit_lib circuit_model) ! 2) \<mapsto>
                  BasicPort_lsb_msb
                    (if is_edge_use_inv_mem mux_graph edge then ''mem'' else ''mem_inv'')
                    (find_edge_mem mux_graph edge) (find_edge_mem mux_graph edge))
         \<and> port2port_name_map
              (port_lib_name circuit_lib
                 (model_input_ports circuit_lib
                    (pass_gate_logic_model circuit_lib circuit_model) ! 2)) =
             Some (BasicPort_lsb_msb
                     (if is_edge_use_inv_mem mux_graph edge then ''mem'' else ''mem_inv'')
                     (find_edge_mem mux_graph edge) (find_edge_mem mux_graph edge))
         \<and> (port_lib_name circuit_lib
               (model_input_ports circuit_lib
                  (pass_gate_logic_model circuit_lib circuit_model) ! 1) \<noteq>
             port_lib_name circuit_lib
               (model_input_ports circuit_lib
                  (pass_gate_logic_model circuit_lib circuit_model) ! 2) \<longrightarrow>
             port2port_name_map
               (port_lib_name circuit_lib
                  (model_input_ports circuit_lib
                     (pass_gate_logic_model circuit_lib circuit_model) ! 1)) =
             Some (BasicPort_lsb_msb
                     (if is_edge_use_inv_mem mux_graph edge then ''mem_inv'' else ''mem'')
                     (find_edge_mem mux_graph edge) (find_edge_mem mux_graph edge)))"
proof -
  let ?tgate = "pass_gate_logic_model circuit_lib circuit_model"
  let ?ins = "model_input_ports circuit_lib ?tgate"
  let ?outs = "model_output_ports circuit_lib ?tgate"
  let ?map = "\<lambda>in_name out_name mem_name mem_inv_name.
       (((Map.empty
           (port_lib_name circuit_lib (?ins ! 0) \<mapsto>
            BasicPort_lsb_msb in_name
              (input_id mux_graph mux_input) (input_id mux_graph mux_input)))
           (port_lib_name circuit_lib (?outs ! 0) \<mapsto>
            BasicPort_lsb_msb out_name
              (output_id mux_graph mux_output) (output_id mux_graph mux_output)))
           (port_lib_name circuit_lib (?ins ! 1) \<mapsto>
            BasicPort_lsb_msb
              (if is_edge_use_inv_mem mux_graph edge then mem_inv_name else mem_name)
              (find_edge_mem mux_graph edge) (find_edge_mem mux_graph edge)))
           (port_lib_name circuit_lib (?ins ! 2) \<mapsto>
            BasicPort_lsb_msb
              (if is_edge_use_inv_mem mux_graph edge then mem_name else mem_inv_name)
              (find_edge_mem mux_graph edge) (find_edge_mem mux_graph edge))"
  from generate_structural_Inr [OF run not_gate]
  obtain input_port output_port mem_port mem_inv_port
      module_manager6 fp2 module_id tgate_module_id s'' where
    names: "get_name input_port = ''in''" "get_name output_port = ''out''"
      "get_name mem_port = ''mem''" "get_name mem_inv_port = ''mem_inv''"
    and loop: "for_each
       (mux_branch_input_step mgr circuit_lib mux_graph ?tgate ?ins ?outs
          input_port output_port mem_port mem_inv_port module_id tgate_module_id)
       (inputs mux_graph) (module_manager6, fp2) = Inr s''"
    and sub: "set (fp_out (snd s'')) \<subseteq> set (fp_out (snd s'))"
    by blast
  let ?call = "\<lambda>mm. Print_verilog_module_instance mm module_id tgate_module_id
                 (?map (get_name input_port) (get_name output_port)
                    (get_name mem_port) (get_name mem_inv_port))
                 (dump_explicit_port_map circuit_lib ?tgate)"
  have "\<exists>mm. ?call mm \<in> set (fp_out (snd s''))"
  proof (rule for_each_establish
           [where Q = "\<lambda>s. \<exists>mm. ?call mm \<in> set (fp_out (snd s))", OF loop mux_input])
    fix t1 t2
    assume "mux_branch_input_step mgr circuit_lib mux_graph ?tgate ?ins ?outs
              input_port output_port mem_port mem_inv_port module_id tgate_module_id
              mux_input t1 = Inr t2"
    then show "\<exists>mm. ?call mm \<in> set (fp_out (snd t2))"
      using mux_output edge by (rule mux_branch_input_step_prints)
  next
    fix other t1 t2
    assume "mux_branch_input_step mgr circuit_lib mux_graph ?tgate ?ins ?outs
              input_port output_port mem_port mem_inv_port module_id tgate_module_id
              other t1 = Inr t2"
      and "\<exists>mm. ?call mm \<in> set (fp_out (snd t1))"
    then show "\<exists>mm. ?call mm \<in> set (fp_out (snd t2))"
      using mux_branch_input_step_mono by blast
  qed
  then obtain mm where "?call mm \<in> set (fp_out (snd s''))" by blast
  with sub names
  have printed: "Print_verilog_module_instance mm module_id tgate_module_id
                   (?map ''in'' ''out'' ''mem'' ''mem_inv'')
                   (dump_explicit_port_map circuit_lib ?tgate) \<in> set (fp_out (snd s'))"
    by auto
  show ?thesis
    by (intro exI [of _ mm] exI [of _ module_id] exI [of _ tgate_module_id]
          exI [of _ "?map ''in'' ''out'' ''mem'' ''mem_inv''"] conjI printed refl)
       simp_all
qed

theorem tgate_memory_ports_follow_edge_polarity_witness:
  "model_type example_circuit_lib (pass_gate_logic_model example_circuit_lib 0) \<noteq>
     SPICE_MODEL_GATE
   \<and> (3 :: nat) \<in> set (inputs example_mux_graph)
   \<and> (4 :: nat) \<in> set (outputs example_mux_graph)
   \<and> find_edges example_mux_graph 3 4 = [3]
   \<and> is_edge_use_inv_mem example_mux_graph 3
   \<and> (\<exists>s'. generate_verilog_cmos_mux_branch_module_structural example_module_manager
              example_circuit_lib 0 ''mux_basis'' example_mux_graph
              ([''tgate''], example_fstream) = Inr s'
        \<and> (\<exists>mm module_id tgate_module_id.
              Print_verilog_module_instance mm module_id tgate_module_id
                ((((Map.empty (''in'' \<mapsto> BasicPort_lsb_msb ''in'' 3 3))
                     (''out'' \<mapsto> BasicPort_lsb_msb ''out'' 0 0))
                     (''sel'' \<mapsto> BasicPort_lsb_msb ''mem_inv'' 3 3))
                     (''selb'' \<mapsto> BasicPort_lsb_msb ''mem'' 3 3))
                True
              \<in> set (fp_out (snd s'))))"
proof -
  have not_gate: "model_type example_circuit_lib (pass_gate_logic_model example_circuit_lib 0) \<noteq>
                    SPICE_MODEL_GATE"
    by (simp add: example_circuit_lib_def)
  have mux_input: "(3 :: nat) \<in> set (inputs example_mux_graph)"
    by (simp add: example_mux_graph_def)
  have mux_output: "(4 :: nat) \<in> set (outputs example_mux_graph)"
    by (simp add: example_mux_graph_def)
  have edge: "find_edges example_mux_graph 3 4 = [3]"
    by (simp add: example_mux_graph_def)
  have inverted: "is_edge_use_inv_mem example_mux_graph 3"
    by (simp add: example_mux_graph_def)
  from example_branch_run obtain s' where
    run: "generate_verilog_cmos_mux_branch_module_structural example_module_manager
            example_circuit_lib 0 ''mux_basis'' example_mux_graph
            ([''tgate''], example_fstream) = Inr s'"
    by blast
  from tgate_memory_ports_follow_edge_polarity [OF run not_gate mux_input mux_output edge]
  obtain mm module_id tgate_module_id port2port_name_map where
    printed: "Print_verilog_module_instance mm module_id tgate_module_id port2port_name_map
                (dump_explicit_port_map example_circuit_lib
                   (pass_gate_logic_model example_circuit_lib 0))
              \<in> set (fp_out (snd s'))"
    and wiring: "port2port_name_map =
             (((Map.empty
                 (port_lib_name example_circuit_lib
                    (model_input_ports example_circuit_lib
                       (pass_gate_logic_model example_circuit_lib 0) ! 0) \<mapsto>
                  BasicPort_lsb_msb ''in''
                    (input_id example_mux_graph 3) (input_id example_mux_graph 3)))
                 (port_lib_name example_circuit_lib
                    (model_output_ports example_circuit_lib
                       (pass_gate_logic_model example_circuit_lib 0) ! 0) \<mapsto>
                  BasicPort_lsb_msb ''out''
                    (output_id example_mux_graph 4) (output_id example_mux_graph 4)))
                 (port_lib_name example_circuit_lib
                    (model_input_ports example_circuit_lib
                       (pass_gate_logic_model example_circuit_lib 0) ! 1) \<mapsto>
                  BasicPort_lsb_msb
                    (if is_edge_use_inv_mem example_mux_graph 3 then ''mem_inv'' else ''mem'')
                    (find_edge_mem example_mux_graph 3) (find_edge_mem example_mux_graph 3)))
                 (port_lib_name example_circuit_lib
                    (model_input_ports example_circuit_lib
                       (pass_gate_logic_model example_circuit_lib 0) ! 2) \<mapsto>
                  BasicPort_lsb_msb
                    (if is_edge_use_inv_mem example_mux_graph 3 then ''mem'' else ''mem_inv'')
                    (find_edge_mem example_mux_graph 3) (find_edge_mem example_mux_graph 3))"
    by blast
  have flag: "dump_explicit_port_map example_circuit_lib
                (pass_gate_logic_model example_circuit_lib 0) = True"
    by (simp add: example_circuit_lib_def)
  have "port2port_name_map =
          (((Map.empty (''in'' \<mapsto> BasicPort_lsb_msb ''in'' 3 3))
               (''out'' \<mapsto> BasicPort_lsb_msb ''out'' 0 0))
               (''sel'' \<mapsto> BasicPort_lsb_msb ''mem_inv'' 3 3))
               (''selb'' \<mapsto> BasicPort_lsb_msb ''mem'' 3 3)"
    unfolding wiring by (simp add: example_circuit_lib_def example_mux_graph_def)
  with printed flag
  have "Print_verilog_module_instance mm module_id tgate_module_id
          ((((Map.empty (''in'' \<mapsto> BasicPort_lsb_msb ''in'' 3 3))
               (''out'' \<mapsto> BasicPort_lsb_msb ''out'' 0 0))
               (''sel'' \<mapsto> BasicPort_lsb_msb ''mem_inv'' 3 3))
               (''selb'' \<mapsto> BasicPort_lsb_msb ''mem'' 3 3))
          True
        \<in> set (fp_out (snd s'))"
    by simp
  with run not_gate mux_input mux_output edge inverted show ?thesis by blast
qed

end
